theory Spec2Isabelle
  imports Complex_Main
begin

section \<open>Python floats\<close>

text \<open>
  The program \<^verbatim>\<open>app.py\<close> integrates \<open>dy/dx = k y\<close> with the forward Euler method,
  tabulates the steps and reports error metrics. Its numbers are Python floats, that is
  IEEE 754 binary64 values: a finite number, an infinity or a NaN. The sign of a zero is
  not represented; the program never observes it.
\<close>

datatype pyfloat = Fin real | PInf | NInf | NaN

text \<open>
  Two things lie outside the source: how the processor rounds the exact result of an
  arithmetic operation to a float, with overflow to an infinity, and what the C library's
  \<open>exp\<close> returns on a finite argument. Every function of the model takes them as the
  parameter \<open>fp\<close>, and every theorem holds for whatever they are, or names what it
  assumes of them.
\<close>

record float_ops =
  rnd :: "real \<Rightarrow> pyfloat"
  libm_exp :: "real \<Rightarrow> pyfloat"

text \<open>The arithmetic of IEEE 754 on finite numbers, infinities and NaN.\<close>

fun float_neg :: "pyfloat \<Rightarrow> pyfloat" where
  "float_neg (Fin a) = Fin (- a)"
| "float_neg PInf = NInf"
| "float_neg NInf = PInf"
| "float_neg NaN = NaN"

fun float_abs :: "pyfloat \<Rightarrow> pyfloat" where
  "float_abs (Fin a) = Fin \<bar>a\<bar>"
| "float_abs PInf = PInf"
| "float_abs NInf = PInf"
| "float_abs NaN = NaN"

fun float_add :: "float_ops \<Rightarrow> pyfloat \<Rightarrow> pyfloat \<Rightarrow> pyfloat" where
  "float_add fp (Fin a) (Fin b) = rnd fp (a + b)"
| "float_add fp NaN y = NaN"
| "float_add fp x NaN = NaN"
| "float_add fp PInf NInf = NaN"
| "float_add fp NInf PInf = NaN"
| "float_add fp PInf y = PInf"
| "float_add fp NInf y = NInf"
| "float_add fp x PInf = PInf"
| "float_add fp x NInf = NInf"

definition float_sub :: "float_ops \<Rightarrow> pyfloat \<Rightarrow> pyfloat \<Rightarrow> pyfloat" where
  "float_sub fp x y = float_add fp x (float_neg y)"

text \<open>The infinity of the sign of \<open>s\<close>, and NaN for \<open>s = 0\<close> (zero times infinity).\<close>

definition signed_inf :: "real \<Rightarrow> pyfloat" where
  "signed_inf s = (if s = 0 then NaN else if 0 < s then PInf else NInf)"

fun float_mul :: "float_ops \<Rightarrow> pyfloat \<Rightarrow> pyfloat \<Rightarrow> pyfloat" where
  "float_mul fp (Fin a) (Fin b) = rnd fp (a * b)"
| "float_mul fp NaN y = NaN"
| "float_mul fp x NaN = NaN"
| "float_mul fp (Fin a) PInf = signed_inf a"
| "float_mul fp (Fin a) NInf = signed_inf (- a)"
| "float_mul fp PInf (Fin b) = signed_inf b"
| "float_mul fp NInf (Fin b) = signed_inf (- b)"
| "float_mul fp PInf PInf = PInf"
| "float_mul fp PInf NInf = NInf"
| "float_mul fp NInf PInf = NInf"
| "float_mul fp NInf NInf = PInf"

text \<open>Division by a divisor that is not zero.\<close>

fun float_div :: "float_ops \<Rightarrow> pyfloat \<Rightarrow> pyfloat \<Rightarrow> pyfloat" where
  "float_div fp (Fin a) (Fin b) = rnd fp (a / b)"
| "float_div fp NaN y = NaN"
| "float_div fp x NaN = NaN"
| "float_div fp (Fin a) PInf = Fin 0"
| "float_div fp (Fin a) NInf = Fin 0"
| "float_div fp PInf (Fin b) = signed_inf b"
| "float_div fp NInf (Fin b) = signed_inf (- b)"
| "float_div fp PInf y = NaN"
| "float_div fp NInf y = NaN"

text \<open>The comparisons \<^verbatim>\<open><=\<close> and \<^verbatim>\<open><\<close>: false whenever an operand is NaN.\<close>

fun float_le :: "pyfloat \<Rightarrow> pyfloat \<Rightarrow> bool" where
  "float_le (Fin a) (Fin b) = (a \<le> b)"
| "float_le NaN y = False"
| "float_le x NaN = False"
| "float_le NInf y = True"
| "float_le x PInf = True"
| "float_le PInf y = False"
| "float_le x NInf = False"

fun float_lt :: "pyfloat \<Rightarrow> pyfloat \<Rightarrow> bool" where
  "float_lt (Fin a) (Fin b) = (a < b)"
| "float_lt NaN y = False"
| "float_lt x NaN = False"
| "float_lt PInf y = False"
| "float_lt x NInf = False"
| "float_lt NInf y = True"
| "float_lt x PInf = True"

section \<open>Python operations that may raise\<close>

datatype py_error = ZeroDivisionError | OverflowError | ValueError | IndexError

text \<open>Sequencing of computations that may raise: the first error ends the computation.\<close>

definition bind_err :: "py_error + 'a \<Rightarrow> ('a \<Rightarrow> py_error + 'b) \<Rightarrow> py_error + 'b" where
  "bind_err m f = (case m of Inl e \<Rightarrow> Inl e | Inr v \<Rightarrow> f v)"

text \<open>\<^verbatim>\<open>a / b\<close> raises \<^verbatim>\<open>ZeroDivisionError\<close> when \<open>b\<close> is zero, whatever \<open>a\<close> is.\<close>

definition py_truediv :: "float_ops \<Rightarrow> pyfloat \<Rightarrow> pyfloat \<Rightarrow> py_error + pyfloat" where
  "py_truediv fp a b = (if b = Fin 0 then Inl ZeroDivisionError else Inr (float_div fp a b))"

text \<open>
  \<^verbatim>\<open>math.exp(x)\<close> raises \<^verbatim>\<open>OverflowError\<close> when the result for a finite argument
  overflows; it returns infinity, zero and NaN for the arguments infinity, minus infinity
  and NaN.
\<close>

definition py_exp :: "float_ops \<Rightarrow> pyfloat \<Rightarrow> py_error + pyfloat" where
  "py_exp fp x =
     (case x of
        Fin a \<Rightarrow> (if libm_exp fp a = PInf then Inl OverflowError else Inr (libm_exp fp a))
      | PInf \<Rightarrow> Inr PInf
      | NInf \<Rightarrow> Inr (Fin 0)
      | NaN \<Rightarrow> Inr NaN)"

text \<open>
  \<^verbatim>\<open>int(x)\<close> truncates a finite float toward zero, exactly; it raises
  \<^verbatim>\<open>OverflowError\<close> on an infinity and \<^verbatim>\<open>ValueError\<close> on a NaN.
\<close>

definition py_int :: "pyfloat \<Rightarrow> py_error + int" where
  "py_int x =
     (case x of
        Fin a \<Rightarrow> Inr (if a < 0 then \<lceil>a\<rceil> else \<lfloor>a\<rfloor>)
      | PInf \<Rightarrow> Inl OverflowError
      | NInf \<Rightarrow> Inl OverflowError
      | NaN \<Rightarrow> Inl ValueError)"

text \<open>\<^verbatim>\<open>range(n)\<close> has \<open>n\<close> elements for a positive \<open>n\<close> and none otherwise.\<close>

definition py_range_len :: "int \<Rightarrow> nat" where
  "py_range_len n = (if n \<le> 0 then 0 else nat n)"

text \<open>\<^verbatim>\<open>xs[i]\<close> for an index \<open>i \<ge> 0\<close>, and \<^verbatim>\<open>xs[-1]\<close>.\<close>

definition py_getitem :: "'a list \<Rightarrow> nat \<Rightarrow> py_error + 'a" where
  "py_getitem xs i = (if i < length xs then Inr (xs ! i) else Inl IndexError)"

definition py_getlast :: "'a list \<Rightarrow> py_error + 'a" where
  "py_getlast xs = (case xs of [] \<Rightarrow> Inl IndexError | _ # _ \<Rightarrow> Inr (last xs))"

section \<open>The integrator\<close>

text \<open>
  The loop of \<^verbatim>\<open>euler_method\<close>. Its state is the three lists and the two current
  values; one iteration appends one point to each list, or raises when \<^verbatim>\<open>math.exp\<close>
  does. The loop variable is not read by the body, so the model counts the iterations
  left. Python reads \<^verbatim>\<open>h * k * y_current\<close> as \<^verbatim>\<open>(h * k) * y_current\<close>.
\<close>

type_synonym euler_state =
  "pyfloat list \<times> pyfloat list \<times> pyfloat list \<times> pyfloat \<times> pyfloat"

fun euler_loop ::
  "nat \<Rightarrow> float_ops \<Rightarrow> pyfloat \<Rightarrow> pyfloat \<Rightarrow> pyfloat \<Rightarrow> pyfloat \<Rightarrow> euler_state
     \<Rightarrow> py_error + euler_state" where
  "euler_loop 0 fp k x0 y0 h s = Inr s"
| "euler_loop (Suc n) fp k x0 y0 h (x_values, y_euler, y_analytical, x_current, y_current) =
     (let y_next = float_add fp y_current (float_mul fp (float_mul fp h k) y_current);
          x_next = float_add fp x_current h
      in bind_err (py_exp fp (float_mul fp k (float_sub fp x_next x0))) (\<lambda>e.
           euler_loop n fp k x0 y0 h
             (x_values @ [x_next],
              y_euler @ [y_next],
              y_analytical @ [float_mul fp y0 e],
              x_next,
              y_next)))"

definition euler_method ::
  "float_ops \<Rightarrow> pyfloat \<Rightarrow> pyfloat \<Rightarrow> pyfloat \<Rightarrow> pyfloat \<Rightarrow> pyfloat
     \<Rightarrow> py_error + (pyfloat list \<times> pyfloat list \<times> pyfloat list)" where
  "euler_method fp k x0 y0 x_final h =
     bind_err (py_truediv fp (float_sub fp x_final x0) h) (\<lambda>q.
     bind_err (py_int q) (\<lambda>n_steps.
     bind_err (euler_loop (py_range_len n_steps) fp k x0 y0 h ([x0], [y0], [y0], x0, y0))
       (\<lambda>(x_values, y_euler, y_analytical, x_current, y_current).
          Inr (x_values, y_euler, y_analytical))))"

section \<open>The table formatter\<close>

text \<open>
  The cells of the step table are Python f-strings. An f-string is modelled by its parts,
  in order: literal text, a number under the format specification \<^verbatim>\<open>.pf\<close> (fixed
  point, \<open>p\<close> digits after the decimal point) and a number with no format specification,
  which Python renders with \<^verbatim>\<open>str\<close>. Turning a part into characters is the work of
  Python's built-in float formatting and is not modelled.
\<close>

datatype piece =
    Lit string
    \<comment> \<open>literal text\<close>
  | Fixed nat pyfloat
    \<comment> \<open>\<^verbatim>\<open>{v:.pf}\<close>\<close>
  | Plain pyfloat
    \<comment> \<open>\<^verbatim>\<open>{v}\<close>\<close>

text \<open>The multiplication sign U+00D7 of the update formula, in UTF-8.\<close>

definition times_sign :: string where
  "times_sign = [CHR 0xC3, CHR 0x97]"

text \<open>
  One dictionary of \<^verbatim>\<open>steps_data\<close>. The fields stand for the keys \<^verbatim>\<open>'Step'\<close>,
  \<^verbatim>\<open>'x'\<close>, \<^verbatim>\<open>'y (Euler)'\<close>, \<^verbatim>\<open>'y (Analytical)'\<close>, \<^verbatim>\<open>'dy/dx = ky'\<close>,
  \<^verbatim>\<open>'Error'\<close> and \<^verbatim>\<open>'Next y'\<close>, in this order.
\<close>

record step_row =
  col_Step :: nat
  col_x :: "piece list"
  col_y_Euler :: "piece list"
  col_y_Analytical :: "piece list"
  col_dy_dx :: "piece list"
  col_Error :: "piece list"
  col_Next_y :: "piece list"

text \<open>
  The body of the loop of \<^verbatim>\<open>create_step_table\<close> for the index \<open>i\<close>: the dictionary
  it appends, or the \<^verbatim>\<open>IndexError\<close> of a read beyond the end of a list.
\<close>

definition step_record ::
  "float_ops \<Rightarrow> pyfloat list \<Rightarrow> pyfloat list \<Rightarrow> pyfloat list \<Rightarrow> pyfloat \<Rightarrow> pyfloat \<Rightarrow> nat
     \<Rightarrow> py_error + step_row" where
  "step_record fp x_values y_euler y_analytical k h i =
     (if i = 0 then
        bind_err (py_getitem y_euler i) (\<lambda>ye_i.
        let derivative = float_mul fp k ye_i in
        bind_err (py_getitem x_values i) (\<lambda>x_i.
        bind_err (py_getitem y_analytical i) (\<lambda>ya_i.
          Inr \<lparr>col_Step = i,
               col_x = [Fixed 4 x_i],
               col_y_Euler = [Fixed 6 ye_i],
               col_y_Analytical = [Fixed 6 ya_i],
               col_dy_dx = [Fixed 6 derivative],
               col_Error = [Fixed 6 (float_abs (float_sub fp ye_i ya_i))],
               col_Next_y = [Lit ''Initial value'']\<rparr>)))
      else
        bind_err (py_getitem y_euler (i - 1)) (\<lambda>ye_prev.
        let derivative = float_mul fp k ye_prev;
            next_y_calc = [Fixed 6 ye_prev, Lit '' + '', Plain h,
                           Lit ('' '' @ times_sign @ '' ''), Fixed 6 derivative] in
        bind_err (py_getitem x_values i) (\<lambda>x_i.
        bind_err (py_getitem y_euler i) (\<lambda>ye_i.
        bind_err (py_getitem y_analytical i) (\<lambda>ya_i.
          Inr \<lparr>col_Step = i,
               col_x = [Fixed 4 x_i],
               col_y_Euler = [Fixed 6 ye_i],
               col_y_Analytical = [Fixed 6 ya_i],
               col_dy_dx = [Fixed 6 derivative],
               col_Error = [Fixed 6 (float_abs (float_sub fp ye_i ya_i))],
               col_Next_y = next_y_calc\<rparr>)))))"

text \<open>The loop over \<^verbatim>\<open>range(len(x_values))\<close>, appending to \<^verbatim>\<open>steps_data\<close>.\<close>

fun step_table_loop ::
  "nat list \<Rightarrow> float_ops \<Rightarrow> pyfloat list \<Rightarrow> pyfloat list \<Rightarrow> pyfloat list \<Rightarrow> pyfloat \<Rightarrow> pyfloat
     \<Rightarrow> step_row list \<Rightarrow> py_error + step_row list" where
  "step_table_loop [] fp x_values y_euler y_analytical k h steps_data = Inr steps_data"
| "step_table_loop (i # rest) fp x_values y_euler y_analytical k h steps_data =
     bind_err (step_record fp x_values y_euler y_analytical k h i) (\<lambda>row.
       step_table_loop rest fp x_values y_euler y_analytical k h (steps_data @ [row]))"

definition create_step_table ::
  "float_ops \<Rightarrow> pyfloat list \<Rightarrow> pyfloat list \<Rightarrow> pyfloat list \<Rightarrow> pyfloat \<Rightarrow> pyfloat
     \<Rightarrow> py_error + step_row list" where
  "create_step_table fp x_values y_euler y_analytical k h =
     step_table_loop [0..<length x_values] fp x_values y_euler y_analytical k h []"

section \<open>The application\<close>

text \<open>
  \<^verbatim>\<open>main\<close> returns nothing; what it does is what it shows and what it calls. Its
  model returns the trace of these events, in order, together with the exception that
  ended it, if one did. The events are: an error message shown with \<^verbatim>\<open>st.error\<close>,
  the call of the integrator with its arguments, a metric shown with \<^verbatim>\<open>st.metric\<close>
  (label and text), the call of the table formatter, and a table shown with
  \<^verbatim>\<open>st.dataframe\<close>. Calls that show fixed text are left out, and the model ends where
  the step table has been shown: the charts and the statistics of the error distribution
  that follow are not part of it.
\<close>

datatype event =
    St_error string
  | Call_euler_method pyfloat pyfloat pyfloat pyfloat pyfloat
  | St_metric string "piece list"
  | Call_create_step_table
  | St_dataframe "step_row list"

type_synonym 'a run = "event list \<times> (py_error + 'a)"

text \<open>One visible event; a computation without a visible event; their sequencing.\<close>

definition emit :: "event \<Rightarrow> unit run" where
  "emit ev = ([ev], Inr ())"

definition attempt :: "py_error + 'a \<Rightarrow> 'a run" where
  "attempt m = ([], m)"

definition bind_run :: "'a run \<Rightarrow> ('a \<Rightarrow> 'b run) \<Rightarrow> 'b run" where
  "bind_run m f =
     (case m of
        (tr, Inl e) \<Rightarrow> (tr, Inl e)
      | (tr, Inr v) \<Rightarrow> (case f v of (tr', r) \<Rightarrow> (tr @ tr', r)))"

text \<open>
  \<^verbatim>\<open>main\<close>, from the five values the input widgets return. A guard that fails shows
  its message and returns. The integer literals \<^verbatim>\<open>100\<close> and \<^verbatim>\<open>0\<close> of the relative
  error stand as the floats they are converted to or rendered as.
\<close>

definition main ::
  "float_ops \<Rightarrow> pyfloat \<Rightarrow> pyfloat \<Rightarrow> pyfloat \<Rightarrow> pyfloat \<Rightarrow> pyfloat \<Rightarrow> unit run" where
  "main fp k x0 y0 x_final h =
     (if float_le x_final x0 then
        emit (St_error ''Final x value must be greater than initial x value'')
      else if float_le h (Fin 0) then
        emit (St_error ''Step size must be positive'')
      else
        bind_run (emit (Call_euler_method k x0 y0 x_final h)) (\<lambda>_.
        bind_run (attempt (euler_method fp k x0 y0 x_final h))
          (\<lambda>(x_values, y_euler, y_analytical).
        bind_run (attempt (py_getlast y_euler)) (\<lambda>ye_last.
        bind_run (emit (St_metric ''Final Euler Value'' [Fixed 6 ye_last])) (\<lambda>_.
        bind_run (attempt (py_getlast y_analytical)) (\<lambda>ya_last.
        bind_run (emit (St_metric ''Final Analytical Value'' [Fixed 6 ya_last])) (\<lambda>_.
        let final_error = float_abs (float_sub fp ye_last ya_last) in
        bind_run (attempt
                   (if ya_last \<noteq> Fin 0
                    then bind_err (py_truediv fp final_error (float_abs ya_last))
                           (\<lambda>q. Inr (float_mul fp q (Fin 100)))
                    else Inr (Fin 0))) (\<lambda>relative_error.
        bind_run (emit (St_metric ''Final Absolute Error'' [Fixed 6 final_error])) (\<lambda>_.
        bind_run (emit (St_metric ''Final Relative Error''
                          [Fixed 4 relative_error, Lit ''%''])) (\<lambda>_.
        bind_run (emit Call_create_step_table) (\<lambda>_.
        bind_run (attempt (create_step_table fp x_values y_euler y_analytical k h))
          (\<lambda>steps_df.
        if length steps_df > 20 then
          bind_run (emit (St_dataframe (take 20 steps_df))) (\<lambda>_.
            emit (St_dataframe steps_df))
        else
          emit (St_dataframe steps_df)))))))))))))"

section \<open>Notions used to state the properties\<close>

text \<open>
  An arithmetic to run the model on: it computes exactly inside the range of binary64,
  whose largest finite value is \<open>2^1024 - 2^971\<close>, and overflows to an infinity outside.
\<close>

definition binary64_max :: real where
  "binary64_max = 2 ^ 1024 - 2 ^ 971"

definition clip :: "real \<Rightarrow> pyfloat" where
  "clip r = (if binary64_max < r then PInf else if r < - binary64_max then NInf else Fin r)"

definition exact_in_range :: float_ops where
  "exact_in_range = \<lparr>rnd = clip, libm_exp = (\<lambda>r. clip (exp r))\<rparr>"

text \<open>
  A second arithmetic, with no rounding and with \<open>1 + r\<close> for \<open>exp r\<close>. It tells apart
  computations that agree for the true exponential.
\<close>

definition crude_exp :: float_ops where
  "crude_exp = \<lparr>rnd = Fin, libm_exp = (\<lambda>r. Fin (1 + r))\<rparr>"

text \<open>
  What some properties assume of the arithmetic. A float is representable when rounding
  leaves it alone. Rounding to nearest is monotone, returns representable numbers and
  keeps zero. Of the library's \<open>exp\<close> some properties assume that it is monotone and
  maps \<open>0\<close> to \<open>1\<close>. Monotonicity in \<^verbatim>\<open><=\<close> includes that no NaN is returned.
\<close>

definition representable :: "float_ops \<Rightarrow> pyfloat \<Rightarrow> bool" where
  "representable fp x = (case x of Fin a \<Rightarrow> rnd fp a = Fin a | _ \<Rightarrow> True)"

definition ieee_rounding :: "float_ops \<Rightarrow> bool" where
  "ieee_rounding fp =
     ((\<forall>r s. r \<le> s \<longrightarrow> float_le (rnd fp r) (rnd fp s)) \<and>
      (\<forall>r. representable fp (rnd fp r)) \<and>
      rnd fp 0 = Fin 0)"

definition monotone_exp :: "float_ops \<Rightarrow> bool" where
  "monotone_exp fp =
     ((\<forall>r s. r \<le> s \<longrightarrow> float_le (libm_exp fp r) (libm_exp fp s)) \<and>
      libm_exp fp 0 = Fin 1)"

text \<open>
  The closed form \<open>y0 * exp (k * (x - x0))\<close> of the analytical solution at the grid
  point \<open>x\<close>, computed in floats as line 45 of the source computes it.
\<close>

definition closed_form ::
  "float_ops \<Rightarrow> pyfloat \<Rightarrow> pyfloat \<Rightarrow> pyfloat \<Rightarrow> pyfloat \<Rightarrow> py_error + pyfloat" where
  "closed_form fp k x0 y0 x =
     bind_err (py_exp fp (float_mul fp k (float_sub fp x x0))) (\<lambda>e. Inr (float_mul fp y0 e))"

text \<open>
  The invariant of the loop of \<^verbatim>\<open>euler_method\<close>, which holds of the loop state
  before and after every iteration: the lists are non-empty and of one length, the
  current values are the last entries, the first entries are the initial condition,
  neighbouring entries obey the Euler update, and every analytical entry after the first
  is the closed form at its grid point.
\<close>

definition euler_inv ::
  "float_ops \<Rightarrow> pyfloat \<Rightarrow> pyfloat \<Rightarrow> pyfloat \<Rightarrow> pyfloat \<Rightarrow> euler_state \<Rightarrow> bool" where
  "euler_inv fp k x0 y0 h s =
     (case s of (xs, ye, ya, xc, yc) \<Rightarrow>
        xs \<noteq> [] \<and> length ye = length xs \<and> length ya = length xs \<and>
        xc = last xs \<and> yc = last ye \<and>
        xs ! 0 = x0 \<and> ye ! 0 = y0 \<and> ya ! 0 = y0 \<and>
        (\<forall>i. Suc i < length xs \<longrightarrow>
           ye ! Suc i = float_add fp (ye ! i) (float_mul fp (float_mul fp h k) (ye ! i)) \<and>
           xs ! Suc i = float_add fp (xs ! i) h \<and>
           closed_form fp k x0 y0 (xs ! Suc i) = Inr (ya ! Suc i)))"

text \<open>
  The dictionary for the index \<open>i\<close>, written with plain list access. \<open>step_record\<close>
  returns it whenever the three lists reach the index \<open>i\<close>.
\<close>

definition row_at ::
  "float_ops \<Rightarrow> pyfloat list \<Rightarrow> pyfloat list \<Rightarrow> pyfloat list \<Rightarrow> pyfloat \<Rightarrow> pyfloat \<Rightarrow> nat
     \<Rightarrow> step_row" where
  "row_at fp x_values y_euler y_analytical k h i =
     \<lparr>col_Step = i,
      col_x = [Fixed 4 (x_values ! i)],
      col_y_Euler = [Fixed 6 (y_euler ! i)],
      col_y_Analytical = [Fixed 6 (y_analytical ! i)],
      col_dy_dx = [Fixed 6 (float_mul fp k (y_euler ! (if i = 0 then 0 else i - 1)))],
      col_Error = [Fixed 6 (float_abs (float_sub fp (y_euler ! i) (y_analytical ! i)))],
      col_Next_y =
        (if i = 0 then [Lit ''Initial value'']
         else [Fixed 6 (y_euler ! (i - 1)), Lit '' + '', Plain h,
               Lit ('' '' @ times_sign @ '' ''),
               Fixed 6 (float_mul fp k (y_euler ! (i - 1)))])\<rparr>"

text \<open>
  A part of a cell is rendered at a fixed decimal precision when it is literal text or a
  number under a \<^verbatim>\<open>.pf\<close> format specification.
\<close>

fun fixed_precision :: "piece \<Rightarrow> bool" where
  "fixed_precision (Lit s) = True"
| "fixed_precision (Fixed p v) = True"
| "fixed_precision (Plain v) = False"

section \<open>The arithmetic that is exact in range\<close>

lemma binary64_max_large: "1000000 \<le> binary64_max"
  by (simp add: binary64_max_def)

lemma clip_small: "\<bar>r\<bar> \<le> 1000000 \<Longrightarrow> clip r = Fin r"
  using binary64_max_large by (auto simp: clip_def)

lemma clip_exp_small: "r \<le> 1 \<Longrightarrow> clip (exp r) = Fin (exp r)"
proof -
  assume "r \<le> 1"
  then have "exp r \<le> exp 1" by simp
  also have "exp 1 \<le> (3::real)" by (rule exp_le)
  finally have "exp r \<le> 3" .
  moreover have "0 < exp r" by simp
  ultimately have "\<bar>exp r\<bar> \<le> 1000000" by simp
  then show ?thesis by (rule clip_small)
qed

lemma clip_mono: "r \<le> s \<Longrightarrow> float_le (clip r) (clip s)"
  using binary64_max_large by (auto simp: clip_def)

lemma clip_representable: "representable exact_in_range (clip r)"
  by (auto simp: representable_def exact_in_range_def clip_def)

lemma ieee_rounding_exact_in_range: "ieee_rounding exact_in_range"
  unfolding ieee_rounding_def
proof (intro conjI allI impI)
  fix r s :: real
  assume "r \<le> s"
  then show "float_le (rnd exact_in_range r) (rnd exact_in_range s)"
    by (simp add: exact_in_range_def clip_mono)
next
  fix r :: real
  show "representable exact_in_range (rnd exact_in_range r)"
    using clip_representable [of r] by (simp add: exact_in_range_def)
next
  show "rnd exact_in_range 0 = Fin 0"
    by (simp add: exact_in_range_def clip_small)
qed

lemma monotone_exp_exact_in_range: "monotone_exp exact_in_range"
  unfolding monotone_exp_def
proof (intro conjI allI impI)
  fix r s :: real
  assume "r \<le> s"
  then show "float_le (libm_exp exact_in_range r) (libm_exp exact_in_range s)"
    by (simp add: exact_in_range_def clip_mono)
next
  show "libm_exp exact_in_range 0 = Fin 1"
    by (simp add: exact_in_range_def clip_small)
qed

text \<open>The operations of this arithmetic on small numbers, for running the model.\<close>

lemma rnd_exact_small: "\<bar>r\<bar> \<le> 1000000 \<Longrightarrow> rnd exact_in_range r = Fin r"
  by (simp add: exact_in_range_def clip_small)

lemma libm_exp_exact_small: "r \<le> 1 \<Longrightarrow> libm_exp exact_in_range r = Fin (exp r)"
  by (simp add: exact_in_range_def clip_exp_small)

lemma rnd_exact_exp_small: "r \<le> 1 \<Longrightarrow> rnd exact_in_range (exp r) = Fin (exp r)"
  by (simp add: exact_in_range_def clip_exp_small)

section \<open>Properties of the integrator\<close>

subsection \<open>The loop invariant\<close>

text \<open>The invariant holds initially, is kept by one iteration and so by the whole loop.\<close>

lemma euler_inv_init: "euler_inv fp k x0 y0 h ([x0], [y0], [y0], x0, y0)"
  by (simp add: euler_inv_def)

lemma euler_inv_step:
  assumes "euler_inv fp k x0 y0 h (xs, ye, ya, xc, yc)"
    and "py_exp fp (float_mul fp k (float_sub fp (float_add fp xc h) x0)) = Inr e"
  shows "euler_inv fp k x0 y0 h
           (xs @ [float_add fp xc h],
            ye @ [float_add fp yc (float_mul fp (float_mul fp h k) yc)],
            ya @ [float_mul fp y0 e],
            float_add fp xc h,
            float_add fp yc (float_mul fp (float_mul fp h k) yc))"
proof -
  let ?x = "float_add fp xc h"
  let ?y = "float_add fp yc (float_mul fp (float_mul fp h k) yc)"
  let ?a = "float_mul fp y0 e"
  have inv:
    "xs \<noteq> [] \<and> length ye = length xs \<and> length ya = length xs \<and>
     xc = last xs \<and> yc = last ye \<and>
     xs ! 0 = x0 \<and> ye ! 0 = y0 \<and> ya ! 0 = y0 \<and>
     (\<forall>i. Suc i < length xs \<longrightarrow>
        ye ! Suc i = float_add fp (ye ! i) (float_mul fp (float_mul fp h k) (ye ! i)) \<and>
        xs ! Suc i = float_add fp (xs ! i) h \<and>
        closed_form fp k x0 y0 (xs ! Suc i) = Inr (ya ! Suc i))"
    using assms(1) [unfolded euler_inv_def prod.case] .
  then have ne: "xs \<noteq> []" and le: "length ye = length xs"
    and la: "length ya = length xs"
    and xc: "xc = last xs" and yc: "yc = last ye"
    and x0: "xs ! 0 = x0" and y0: "ye ! 0 = y0" and a0: "ya ! 0 = y0"
    by blast+
  from inv have rec: "\<And>i. Suc i < length xs \<Longrightarrow>
                ye ! Suc i = float_add fp (ye ! i) (float_mul fp (float_mul fp h k) (ye ! i)) \<and>
                xs ! Suc i = float_add fp (xs ! i) h \<and>
                closed_form fp k x0 y0 (xs ! Suc i) = Inr (ya ! Suc i)"
    by blast
  from ne have pos: "0 < length xs" by simp
  from ne le have ne': "ye \<noteq> []" by auto
  have lastx: "xs ! (length xs - 1) = xc" using ne xc by (simp add: last_conv_nth)
  have lasty: "ye ! (length xs - 1) = yc" using ne' yc le by (simp add: last_conv_nth)
  from assms(2) have cf: "closed_form fp k x0 y0 ?x = Inr ?a"
    by (simp add: closed_form_def bind_err_def)
  have rec': "(ye @ [?y]) ! Suc i =
                float_add fp ((ye @ [?y]) ! i) (float_mul fp (float_mul fp h k) ((ye @ [?y]) ! i)) \<and>
              (xs @ [?x]) ! Suc i = float_add fp ((xs @ [?x]) ! i) h \<and>
              closed_form fp k x0 y0 ((xs @ [?x]) ! Suc i) = Inr ((ya @ [?a]) ! Suc i)"
    if "Suc i < length (xs @ [?x])" for i
  proof (cases "Suc i < length xs")
    case True
    from rec [OF True] have
      "ye ! Suc i = float_add fp (ye ! i) (float_mul fp (float_mul fp h k) (ye ! i))"
      "xs ! Suc i = float_add fp (xs ! i) h"
      "closed_form fp k x0 y0 (xs ! Suc i) = Inr (ya ! Suc i)"
      by blast+
    with True le la show ?thesis by (simp add: nth_append)
  next
    case False
    with that have i: "i = length xs - 1" by simp
    with pos have "Suc i = length xs" by simp
    then show ?thesis using lastx lasty le la i cf by (simp add: nth_append)
  qed
  have basics: "xs @ [?x] \<noteq> []" "length (ye @ [?y]) = length (xs @ [?x])"
    "length (ya @ [?a]) = length (xs @ [?x])" "?x = last (xs @ [?x])" "?y = last (ye @ [?y])"
    "(xs @ [?x]) ! 0 = x0" "(ye @ [?y]) ! 0 = y0" "(ya @ [?a]) ! 0 = y0"
    using ne le la x0 y0 a0 pos by (simp_all add: nth_append)
  show ?thesis
    unfolding euler_inv_def prod.case
    using basics rec' by blast
qed

lemma euler_loop_inv:
  "euler_loop n fp k x0 y0 h s = Inr s' \<Longrightarrow> euler_inv fp k x0 y0 h s \<Longrightarrow>
     euler_inv fp k x0 y0 h s' \<and> length (fst s') = length (fst s) + n"
proof (induction n arbitrary: s)
  case 0
  then show ?case by simp
next
  case (Suc n)
  obtain xs ye ya xc yc where s: "s = (xs, ye, ya, xc, yc)"
    by (cases s) auto
  let ?x = "float_add fp xc h"
  let ?y = "float_add fp yc (float_mul fp (float_mul fp h k) yc)"
  from Suc.prems(1) obtain e where
    e: "py_exp fp (float_mul fp k (float_sub fp ?x x0)) = Inr e" and
    run: "euler_loop n fp k x0 y0 h
            (xs @ [?x], ye @ [?y], ya @ [float_mul fp y0 e], ?x, ?y) = Inr s'"
    unfolding s by (auto simp: bind_err_def Let_def split: sum.splits)
  from Suc.prems(2) e have "euler_inv fp k x0 y0 h
      (xs @ [?x], ye @ [?y], ya @ [float_mul fp y0 e], ?x, ?y)"
    unfolding s by (rule euler_inv_step)
  from Suc.IH [OF run this] show ?case
    unfolding s by simp
qed

subsection \<open>A returned trajectory\<close>

text \<open>
  When the call returns, the division and the conversion to \<open>int\<close> succeeded, the loop
  ran \<^verbatim>\<open>range(n_steps)\<close> times without raising, and the lists it built satisfy the
  invariant.
\<close>

lemma euler_method_returned:
  assumes "euler_method fp k x0 y0 x_final h = Inr (xs, ye, ya)"
  shows "\<exists>q n xc yc.
           py_truediv fp (float_sub fp x_final x0) h = Inr q \<and>
           py_int q = Inr n \<and>
           euler_inv fp k x0 y0 h (xs, ye, ya, xc, yc) \<and>
           length xs = Suc (py_range_len n)"
proof -
  from assms obtain q n s where
    q: "py_truediv fp (float_sub fp x_final x0) h = Inr q" and
    n: "py_int q = Inr n" and
    loop: "euler_loop (py_range_len n) fp k x0 y0 h ([x0], [y0], [y0], x0, y0) = Inr s" and
    s: "(case s of (x_values, y_euler, y_analytical, x_current, y_current) \<Rightarrow>
           Inr (x_values, y_euler, y_analytical)) = (Inr (xs, ye, ya) :: py_error + _)"
    by (auto simp: euler_method_def bind_err_def split: sum.splits)
  from s obtain xc yc where s': "s = (xs, ye, ya, xc, yc)"
    by (cases s) auto
  from euler_loop_inv [OF loop euler_inv_init]
  have "euler_inv fp k x0 y0 h s" and "length (fst s) = Suc (py_range_len n)"
    by simp_all
  with q n show ?thesis unfolding s' by auto
qed

text \<open>
  The closed form at every index of a loop state, the first included: there the source
  stores \<open>y0\<close>, which is the closed form at \<open>x0\<close> when \<open>k\<close> and \<open>x0\<close> are finite,
  rounding keeps \<open>0\<close>, the library's \<open>exp\<close> maps \<open>0\<close> to \<open>1\<close> and \<open>y0\<close> is a float.
\<close>

lemma euler_inv_closed_form:
  assumes "euler_inv fp (Fin kr) (Fin xr) y0 h (xs, ye, ya, xc, yc)"
    and "rnd fp 0 = Fin 0" "libm_exp fp 0 = Fin 1" "representable fp y0"
    and "i < length xs"
  shows "closed_form fp (Fin kr) (Fin xr) y0 (xs ! i) = Inr (ya ! i)"
proof -
  note inv = assms(1) [unfolded euler_inv_def prod.case]
  from inv have x0: "xs ! 0 = Fin xr" and a0: "ya ! 0 = y0"
    by blast+
  have one: "float_mul fp y0 (Fin 1) = y0"
    using assms(4) by (cases y0) (simp_all add: representable_def signed_inf_def)
  have zero: "closed_form fp (Fin kr) (Fin xr) y0 (Fin xr) = Inr y0"
    using assms(2,3) one by (simp add: closed_form_def py_exp_def bind_err_def float_sub_def)
  show ?thesis
  proof (cases i)
    case 0
    with x0 a0 zero show ?thesis by simp
  next
    case (Suc j)
    with assms(5) inv show ?thesis by blast
  qed
qed

subsection \<open>Raising and returning\<close>

text \<open>
  The errors of the integrator: \<^verbatim>\<open>ZeroDivisionError\<close> for a zero step,
  \<^verbatim>\<open>OverflowError\<close> for an infinite quotient or an overflow of \<^verbatim>\<open>math.exp\<close>, and
  \<^verbatim>\<open>ValueError\<close> for a quotient that is NaN.
\<close>

lemma euler_loop_error:
  "euler_loop n fp k x0 y0 h s = Inl e \<Longrightarrow> e = OverflowError"
proof (induction n arbitrary: s)
  case 0
  then show ?case by simp
next
  case (Suc n)
  obtain xs ye ya xc yc where s: "s = (xs, ye, ya, xc, yc)"
    by (cases s) auto
  from Suc.prems show ?case
    unfolding s
    by (auto simp: bind_err_def py_exp_def Let_def dest: Suc.IH
        split: sum.splits pyfloat.splits if_splits)
qed

lemma euler_method_error:
  assumes "euler_method fp k x0 y0 x_final h = Inl e"
  shows "(e = ZeroDivisionError \<and> h = Fin 0) \<or> e = OverflowError \<or> e = ValueError"
  using assms
  by (auto simp: euler_method_def bind_err_def py_truediv_def py_int_def
      dest: euler_loop_error split: sum.splits pyfloat.splits if_splits)

text \<open>
  These are the only obstacles: with a non-zero step and a finite quotient the call
  returns in every arithmetic whose \<open>exp\<close> does not overflow.
\<close>

lemma euler_loop_returns:
  assumes "\<forall>a. libm_exp fp a \<noteq> PInf"
  shows "\<exists>s'. euler_loop n fp k x0 y0 h s = Inr s'"
proof (induction n arbitrary: s)
  case 0
  show ?case by (rule exI [of _ s]) simp
next
  case (Suc n)
  obtain xs ye ya xc yc where s: "s = (xs, ye, ya, xc, yc)"
    by (cases s) auto
  from assms have "\<exists>e. py_exp fp u = Inr e" for u
    by (cases u) (simp_all add: py_exp_def)
  then obtain e where
    "py_exp fp (float_mul fp k (float_sub fp (float_add fp xc h) x0)) = Inr e"
    by blast
  with Suc.IH show ?case
    unfolding s by (simp add: bind_err_def Let_def)
qed

lemma euler_method_returns:
  assumes "\<forall>a. libm_exp fp a \<noteq> PInf" "h \<noteq> Fin 0"
    and "float_div fp (float_sub fp x_final x0) h = Fin q"
  shows "\<exists>xs ye ya. euler_method fp k x0 y0 x_final h = Inr (xs, ye, ya)"
proof -
  obtain n where n: "py_int (Fin q) = Inr n"
    by (simp add: py_int_def)
  from euler_loop_returns [OF assms(1)] obtain s where
    s: "euler_loop (py_range_len n) fp k x0 y0 h ([x0], [y0], [y0], x0, y0) = Inr s"
    by blast
  obtain xs ye ya xc yc where "s = (xs, ye, ya, xc, yc)"
    by (cases s) auto
  with assms(2,3) n s show ?thesis
    by (simp add: euler_method_def py_truediv_def bind_err_def)
qed

section \<open>Order and monotonicity of the float operations\<close>

lemma float_le_refl_iff: "float_le x x \<longleftrightarrow> x \<noteq> NaN"
  by (cases x) simp_all

lemma float_le_not_NaN: "float_le x y \<Longrightarrow> x \<noteq> NaN \<and> y \<noteq> NaN"
  by (cases x; cases y) simp_all

lemma float_le_trans: "float_le x y \<Longrightarrow> float_le y z \<Longrightarrow> float_le x z"
  by (cases x; cases y; cases z) simp_all

lemma transp_float_le: "transp float_le"
  by (rule transpI) (rule float_le_trans)

text \<open>What the assumptions give about one rounding and one call of \<open>exp\<close>.\<close>

lemma rnd_mono: "ieee_rounding fp \<Longrightarrow> r \<le> s \<Longrightarrow> float_le (rnd fp r) (rnd fp s)"
  by (simp add: ieee_rounding_def)

lemma rnd_not_NaN: "ieee_rounding fp \<Longrightarrow> rnd fp r \<noteq> NaN"
  using rnd_mono [of fp r r] by (simp add: float_le_refl_iff)

lemma rnd_zero: "ieee_rounding fp \<Longrightarrow> rnd fp 0 = Fin 0"
  by (simp add: ieee_rounding_def)

lemma rnd_representable: "ieee_rounding fp \<Longrightarrow> representable fp (rnd fp r)"
  by (simp add: ieee_rounding_def)

lemma rnd_nonneg: "ieee_rounding fp \<Longrightarrow> 0 \<le> r \<Longrightarrow> float_le (Fin 0) (rnd fp r)"
  using rnd_mono [of fp 0 r] by (simp add: rnd_zero)

lemma rnd_nonpos: "ieee_rounding fp \<Longrightarrow> r \<le> 0 \<Longrightarrow> float_le (rnd fp r) (Fin 0)"
  using rnd_mono [of fp r 0] by (simp add: rnd_zero)

lemma rnd_above: "ieee_rounding fp \<Longrightarrow> rnd fp a = Fin a \<Longrightarrow> a \<le> r \<Longrightarrow> float_le (Fin a) (rnd fp r)"
  using rnd_mono [of fp a r] by simp

lemma libm_exp_mono: "monotone_exp fp \<Longrightarrow> r \<le> s \<Longrightarrow> float_le (libm_exp fp r) (libm_exp fp s)"
  by (simp add: monotone_exp_def)

lemma libm_exp_zero: "monotone_exp fp \<Longrightarrow> libm_exp fp 0 = Fin 1"
  by (simp add: monotone_exp_def)

lemma libm_exp_not_NaN: "monotone_exp fp \<Longrightarrow> libm_exp fp r \<noteq> NaN"
  using libm_exp_mono [of fp r r] by (simp add: float_le_refl_iff)

text \<open>Subtracting a finite number, and multiplying by a positive one, are monotone.\<close>

lemma float_sub_mono:
  assumes "ieee_rounding fp" "float_le x x'"
  shows "float_le (float_sub fp x (Fin b)) (float_sub fp x' (Fin b))"
proof (cases x; cases x')
  fix a a' assume "x = Fin a" "x' = Fin a'"
  with assms show ?thesis by (simp add: float_sub_def rnd_mono)
next
  fix a assume "x = Fin a" "x' = PInf"
  with rnd_not_NaN [OF assms(1), of "a + - b"] show ?thesis
    by (cases "rnd fp (a + - b)") (simp_all add: float_sub_def)
next
  fix a' assume "x = NInf" "x' = Fin a'"
  with rnd_not_NaN [OF assms(1), of "a' + - b"] show ?thesis
    by (cases "rnd fp (a' + - b)") (simp_all add: float_sub_def)
qed (use assms(2) in \<open>simp_all add: float_sub_def\<close>)

lemma float_mul_mono:
  assumes "ieee_rounding fp" "0 < c" "float_le x x'"
  shows "float_le (float_mul fp (Fin c) x) (float_mul fp (Fin c) x')"
proof (cases x; cases x')
  fix a a' assume "x = Fin a" "x' = Fin a'"
  with assms show ?thesis by (simp add: rnd_mono)
next
  fix a assume "x = Fin a" "x' = PInf"
  with assms(2) rnd_not_NaN [OF assms(1), of "c * a"] show ?thesis
    by (cases "rnd fp (c * a)") (simp_all add: signed_inf_def)
next
  fix a' assume "x = NInf" "x' = Fin a'"
  with assms(2) rnd_not_NaN [OF assms(1), of "c * a'"] show ?thesis
    by (cases "rnd fp (c * a')") (simp_all add: signed_inf_def)
qed (use assms(2,3) in \<open>simp_all add: signed_inf_def\<close>)

text \<open>\<^verbatim>\<open>math.exp\<close> is monotone on non-negative arguments, where it is at least \<open>1\<close>.\<close>

lemma py_exp_mono:
  assumes "monotone_exp fp" "float_le (Fin 0) u" "float_le u u'"
    and "py_exp fp u = Inr e" "py_exp fp u' = Inr e'"
  shows "float_le e e'"
proof (cases u; cases u')
  fix a a' assume "u = Fin a" "u' = Fin a'"
  with assms show ?thesis
    by (auto simp: py_exp_def libm_exp_mono split: if_splits)
next
  fix a assume "u = Fin a" "u' = PInf"
  with assms(4,5) libm_exp_not_NaN [OF assms(1), of a] show ?thesis
    by (cases "libm_exp fp a") (auto simp: py_exp_def split: if_splits)
qed (use assms(2-5) in \<open>auto simp: py_exp_def\<close>)

lemma py_exp_ge_one:
  assumes "monotone_exp fp" "float_le (Fin 0) u" "py_exp fp u = Inr e"
  shows "float_le (Fin 1) e"
proof (cases u)
  case (Fin a)
  with assms(2) have "0 \<le> a" by simp
  from libm_exp_mono [OF assms(1) this] have "float_le (Fin 1) (libm_exp fp a)"
    by (simp add: libm_exp_zero [OF assms(1)])
  with assms(3) Fin show ?thesis by (auto simp: py_exp_def split: if_splits)
qed (use assms(2,3) in \<open>auto simp: py_exp_def\<close>)

section \<open>Runs of the model\<close>

text \<open>
  The model on concrete inputs, in the arithmetic that is exact in range. The inputs are
  binary fractions on which binary64 computes the grid and the Euler values exactly too.
  These runs instantiate the theorems below.
\<close>

lemmas run_model = euler_method_def py_truediv_def py_int_def py_exp_def py_range_len_def
  bind_err_def float_sub_def rnd_exact_small libm_exp_exact_small rnd_exact_exp_small Let_def

lemma run_two_steps:
  "euler_method exact_in_range (Fin 1) (Fin 0) (Fin 1) (Fin 1) (Fin (1 / 2)) =
     Inr ([Fin 0, Fin (1 / 2), Fin 1],
          [Fin 1, Fin (3 / 2), Fin (9 / 4)],
          [Fin 1, Fin (exp (1 / 2)), Fin (exp 1)])"
  by (simp add: run_model numeral_2_eq_2)

lemma run_short_of_end:
  "euler_method exact_in_range (Fin 1) (Fin 0) (Fin 1) (Fin (5 / 4)) (Fin (1 / 2)) =
     Inr ([Fin 0, Fin (1 / 2), Fin 1],
          [Fin 1, Fin (3 / 2), Fin (9 / 4)],
          [Fin 1, Fin (exp (1 / 2)), Fin (exp 1)])"
  by (simp add: run_model numeral_2_eq_2)

lemma run_one_step:
  "euler_method exact_in_range (Fin 1) (Fin 0) (Fin 1) (Fin (1 / 2)) (Fin (1 / 2)) =
     Inr ([Fin 0, Fin (1 / 2)], [Fin 1, Fin (3 / 2)], [Fin 1, Fin (exp (1 / 2))])"
  by (simp add: run_model)

lemma run_zero_start:
  "euler_method exact_in_range (Fin 1) (Fin 0) (Fin 0) (Fin 1) (Fin (1 / 2)) =
     Inr ([Fin 0, Fin (1 / 2), Fin 1], [Fin 0, Fin 0, Fin 0], [Fin 0, Fin 0, Fin 0])"
  by (simp add: run_model numeral_2_eq_2)

section \<open>The claims about the integrator\<close>

text \<open>
  Claim C4. For every valid input (\<open>h > 0\<close>, \<open>x_final > x0\<close>), the trajectory returned
  by \<^verbatim>\<open>euler_method\<close> starts at the initial condition: the first grid point is \<open>x0\<close>,
  and the first Euler value and the first analytical value are both \<open>y0\<close>. This holds of
  every trajectory the call returns, valid input or not; on some valid inputs the call
  raises instead of returning.
\<close>

theorem euler_method_initial_point:
  assumes "euler_method fp k x0 y0 x_final h = Inr (xs, ye, ya)"
  shows "xs \<noteq> [] \<and> ye \<noteq> [] \<and> ya \<noteq> [] \<and> xs ! 0 = x0 \<and> ye ! 0 = y0 \<and> ya ! 0 = y0"
proof -
  from euler_method_returned [OF assms] obtain xc yc where
    "euler_inv fp k x0 y0 h (xs, ye, ya, xc, yc)"
    by blast
  then have "xs \<noteq> []" "length ye = length xs" "length ya = length xs"
    "xs ! 0 = x0" "ye ! 0 = y0" "ya ! 0 = y0"
    by (simp_all add: euler_inv_def)
  then show ?thesis by auto
qed

text \<open>The theorem at \<open>k = 1\<close>, \<open>x0 = 0\<close>, \<open>y0 = 1\<close>, \<open>x_final = 1\<close>, \<open>h = 1/2\<close>.\<close>

theorem euler_method_initial_point_witness:
  "euler_method exact_in_range (Fin 1) (Fin 0) (Fin 1) (Fin 1) (Fin (1 / 2)) =
     Inr ([Fin 0, Fin (1 / 2), Fin 1],
          [Fin 1, Fin (3 / 2), Fin (9 / 4)],
          [Fin 1, Fin (exp (1 / 2)), Fin (exp 1)]) \<and>
   [Fin 0, Fin (1 / 2), Fin 1] ! 0 = Fin 0 \<and>
   [Fin 1, Fin (3 / 2), Fin (9 / 4)] ! 0 = Fin 1 \<and>
   [Fin 1, Fin (exp (1 / 2)), Fin (exp 1)] ! 0 = Fin 1"
  using euler_method_initial_point [OF run_two_steps] run_two_steps by blast

text \<open>
  Claim C1. For every valid input (\<open>h > 0\<close>, \<open>x_final > x0\<close>), with \<open>n\<close> the step count,
  the Euler values of the returned trajectory obey the forward-Euler recurrence
  \<open>yEuler[i+1] = yEuler[i] + h * k * yEuler[i]\<close> and the grid obeys
  \<open>x[i+1] = x[i] + h\<close>, for every index \<open>i\<close> with \<open>0 \<le> i < n\<close>. The step count is the
  \<open>int\<close> of the float quotient, the lists have one entry more, and the operations are
  those of the floats, in the order the source writes them.
\<close>

theorem euler_method_recurrence:
  assumes "euler_method fp k x0 y0 x_final h = Inr (xs, ye, ya)"
  shows "\<exists>q n_steps.
           py_truediv fp (float_sub fp x_final x0) h = Inr q \<and>
           py_int q = Inr n_steps \<and>
           length xs = py_range_len n_steps + 1 \<and>
           length ye = py_range_len n_steps + 1 \<and>
           (\<forall>i < py_range_len n_steps.
              ye ! (i + 1) = float_add fp (ye ! i) (float_mul fp (float_mul fp h k) (ye ! i)) \<and>
              xs ! (i + 1) = float_add fp (xs ! i) h)"
proof -
  from euler_method_returned [OF assms] obtain q n xc yc where
    q: "py_truediv fp (float_sub fp x_final x0) h = Inr q" and
    n: "py_int q = Inr n" and
    inv: "euler_inv fp k x0 y0 h (xs, ye, ya, xc, yc)" and
    len: "length xs = Suc (py_range_len n)"
    by blast
  from inv have le: "length ye = length xs"
    by (simp add: euler_inv_def)
  have "ye ! (i + 1) = float_add fp (ye ! i) (float_mul fp (float_mul fp h k) (ye ! i)) \<and>
        xs ! (i + 1) = float_add fp (xs ! i) h"
    if "i < py_range_len n" for i
  proof -
    from that len have "Suc i < length xs" by simp
    with inv [unfolded euler_inv_def prod.case] show ?thesis by simp
  qed
  with q n len le show ?thesis by auto
qed

text \<open>
  The theorem at \<open>k = 1\<close>, \<open>x0 = 0\<close>, \<open>y0 = 1\<close>, \<open>x_final = 1\<close>, \<open>h = 1/2\<close>: the quotient
  is \<open>2\<close>, there are two steps, and the recurrence is read at the last step \<open>i = 1\<close>.
\<close>

theorem euler_method_recurrence_witness:
  "euler_method exact_in_range (Fin 1) (Fin 0) (Fin 1) (Fin 1) (Fin (1 / 2)) =
     Inr ([Fin 0, Fin (1 / 2), Fin 1],
          [Fin 1, Fin (3 / 2), Fin (9 / 4)],
          [Fin 1, Fin (exp (1 / 2)), Fin (exp 1)]) \<and>
   py_truediv exact_in_range (float_sub exact_in_range (Fin 1) (Fin 0)) (Fin (1 / 2)) =
     Inr (Fin 2) \<and>
   py_int (Fin 2) = Inr 2 \<and> (1::nat) < py_range_len 2 \<and>
   [Fin 1, Fin (3 / 2), Fin (9 / 4)] ! (1 + 1) =
     float_add exact_in_range ([Fin 1, Fin (3 / 2), Fin (9 / 4)] ! 1)
       (float_mul exact_in_range (float_mul exact_in_range (Fin (1 / 2)) (Fin 1))
          ([Fin 1, Fin (3 / 2), Fin (9 / 4)] ! 1)) \<and>
   [Fin 0, Fin (1 / 2), Fin 1] ! (1 + 1) =
     float_add exact_in_range ([Fin 0, Fin (1 / 2), Fin 1] ! 1) (Fin (1 / 2))"
proof -
  have q: "py_truediv exact_in_range (float_sub exact_in_range (Fin 1) (Fin 0)) (Fin (1 / 2)) =
      Inr (Fin 2)"
    by (simp add: run_model)
  have n: "py_int (Fin 2) = Inr 2" and i: "(1::nat) < py_range_len 2"
    by (simp_all add: run_model)
  from euler_method_recurrence [OF run_two_steps] q n obtain
    "\<forall>i < py_range_len 2.
       [Fin 1, Fin (3 / 2), Fin (9 / 4)] ! (i + 1) =
         float_add exact_in_range ([Fin 1, Fin (3 / 2), Fin (9 / 4)] ! i)
           (float_mul exact_in_range (float_mul exact_in_range (Fin (1 / 2)) (Fin 1))
              ([Fin 1, Fin (3 / 2), Fin (9 / 4)] ! i)) \<and>
       [Fin 0, Fin (1 / 2), Fin 1] ! (i + 1) =
         float_add exact_in_range ([Fin 0, Fin (1 / 2), Fin 1] ! i) (Fin (1 / 2))"
    by auto
  with i have
    "[Fin 1, Fin (3 / 2), Fin (9 / 4)] ! (1 + 1) =
       float_add exact_in_range ([Fin 1, Fin (3 / 2), Fin (9 / 4)] ! 1)
         (float_mul exact_in_range (float_mul exact_in_range (Fin (1 / 2)) (Fin 1))
            ([Fin 1, Fin (3 / 2), Fin (9 / 4)] ! 1)) \<and>
     [Fin 0, Fin (1 / 2), Fin 1] ! (1 + 1) =
       float_add exact_in_range ([Fin 0, Fin (1 / 2), Fin 1] ! 1) (Fin (1 / 2))"
    by blast
  with run_two_steps q n i show ?thesis by blast
qed

text \<open>
  Claim C2. For every valid input, each analytical value of the returned trajectory is
  the closed form \<open>y0 * exp (k * (x[i] - x0))\<close> evaluated at its own grid point, for every
  index \<open>i\<close> from \<open>0\<close> to the step count; no analytical value is computed from the one
  before. The inputs \<open>k\<close> and \<open>x0\<close> are finite floats and \<open>y0\<close> is a float; index \<open>0\<close>,
  where the source stores \<open>y0\<close> itself, needs that rounding keeps \<open>0\<close> and that the
  library's \<open>exp\<close> maps \<open>0\<close> to \<open>1\<close>.
\<close>

theorem euler_method_analytical:
  assumes "euler_method fp (Fin kr) (Fin xr) y0 x_final h = Inr (xs, ye, ya)"
    and "rnd fp 0 = Fin 0" "libm_exp fp 0 = Fin 1" "representable fp y0"
  shows "length ya = length xs \<and>
         (\<forall>i < length xs. closed_form fp (Fin kr) (Fin xr) y0 (xs ! i) = Inr (ya ! i))"
proof -
  from euler_method_returned [OF assms(1)] obtain xc yc where
    inv: "euler_inv fp (Fin kr) (Fin xr) y0 h (xs, ye, ya, xc, yc)"
    by blast
  from inv have la: "length ya = length xs"
    by (simp add: euler_inv_def)
  from euler_inv_closed_form [OF inv assms(2-4)] la show ?thesis by blast
qed

text \<open>
  The theorem at \<open>k = 1\<close>, \<open>x0 = 0\<close>, \<open>y0 = 1\<close>, \<open>x_final = 1\<close>, \<open>h = 1/2\<close>, read at the
  first index and at the last.
\<close>

theorem euler_method_analytical_witness:
  "euler_method exact_in_range (Fin 1) (Fin 0) (Fin 1) (Fin 1) (Fin (1 / 2)) =
     Inr ([Fin 0, Fin (1 / 2), Fin 1],
          [Fin 1, Fin (3 / 2), Fin (9 / 4)],
          [Fin 1, Fin (exp (1 / 2)), Fin (exp 1)]) \<and>
   rnd exact_in_range 0 = Fin 0 \<and> libm_exp exact_in_range 0 = Fin 1 \<and>
   representable exact_in_range (Fin 1) \<and>
   closed_form exact_in_range (Fin 1) (Fin 0) (Fin 1) ([Fin 0, Fin (1 / 2), Fin 1] ! 0) =
     Inr ([Fin 1, Fin (exp (1 / 2)), Fin (exp 1)] ! 0) \<and>
   closed_form exact_in_range (Fin 1) (Fin 0) (Fin 1) ([Fin 0, Fin (1 / 2), Fin 1] ! 2) =
     Inr ([Fin 1, Fin (exp (1 / 2)), Fin (exp 1)] ! 2)"
proof -
  have r: "rnd exact_in_range 0 = Fin 0" and e: "libm_exp exact_in_range 0 = Fin 1"
    and y: "representable exact_in_range (Fin 1)"
    by (simp_all add: rnd_exact_small libm_exp_exact_small representable_def)
  from euler_method_analytical [OF run_two_steps r e y] have
    all: "\<And>i. i < length [Fin 0, Fin (1 / 2), Fin 1] \<Longrightarrow>
      closed_form exact_in_range (Fin 1) (Fin 0) (Fin 1) ([Fin 0, Fin (1 / 2), Fin 1] ! i) =
        Inr ([Fin 1, Fin (exp (1 / 2)), Fin (exp 1)] ! i)"
    by blast
  have "(0::nat) < length [Fin 0, Fin (1 / 2), Fin 1]" "(2::nat) < length [Fin 0, Fin (1 / 2), Fin 1]"
    by simp_all
  from all [OF this(1)] all [OF this(2)] run_two_steps r e y show ?thesis by blast
qed

text \<open>
  That the closed form is evaluated afresh at each grid point is what the theorem says:
  in an arithmetic whose \<open>exp\<close> is crude, the value computed from the previous analytical
  value, \<open>ya * exp (k * h)\<close>, differs from the closed form, and the integrator returns
  the closed form.
\<close>

lemma crude_exp_assumptions: "ieee_rounding crude_exp \<and> monotone_exp crude_exp"
  by (simp add: ieee_rounding_def monotone_exp_def crude_exp_def representable_def)

lemma closed_form_not_recursive:
  "euler_method crude_exp (Fin 1) (Fin 0) (Fin 1) (Fin 2) (Fin 1) =
     Inr ([Fin 0, Fin 1, Fin 2], [Fin 1, Fin 2, Fin 4], [Fin 1, Fin 2, Fin 3]) \<and>
   closed_form crude_exp (Fin 1) (Fin 0) (Fin 1) (Fin 2) = Inr (Fin 3) \<and>
   bind_err (py_exp crude_exp (float_mul crude_exp (Fin 1) (Fin 1)))
     (\<lambda>e. Inr (float_mul crude_exp (Fin 2) e)) = Inr (Fin 4)"
  by (simp add: euler_method_def py_truediv_def py_int_def py_exp_def py_range_len_def
      bind_err_def float_sub_def closed_form_def crude_exp_def numeral_2_eq_2 Let_def)

text \<open>The difference of a larger and a smaller float, and its quotient by a positive one.\<close>

lemma float_sub_nonneg:
  assumes "ieee_rounding fp" "float_lt x0 x_final"
  shows "float_le (Fin 0) (float_sub fp x_final x0)"
proof (cases x0; cases x_final)
  fix a b assume "x0 = Fin a" "x_final = Fin b"
  with assms(2) rnd_nonneg [OF assms(1), of "b + - a"] show ?thesis
    by (simp add: float_sub_def)
qed (use assms(2) in \<open>simp_all add: float_sub_def\<close>)

lemma float_div_nonneg:
  assumes "ieee_rounding fp" "float_le (Fin 0) d" "float_lt (Fin 0) h"
    and "float_div fp d h = Fin q"
  shows "0 \<le> q"
proof (cases d; cases h)
  fix a b assume "d = Fin a" "h = Fin b"
  with assms(2,3) have "0 \<le> a / b" by simp
  from rnd_nonneg [OF assms(1) this] assms(4) \<open>d = Fin a\<close> \<open>h = Fin b\<close> show ?thesis
    by simp
qed (use assms(2-4) in \<open>simp_all add: signed_inf_def split: if_splits\<close>)

text \<open>
  Claim C3. For every valid input (\<open>h > 0\<close>, \<open>x_final > x0\<close>), the returned trajectory
  has exactly \<open>\<lfloor>(x_final - x0) / h\<rfloor> + 1\<close> points. The quotient is the float quotient the
  source computes; the step count is its truncation to an integer, which is its floor
  because the quotient of a valid input is not negative. Rounding is assumed to be
  \<open>ieee_rounding\<close>.
\<close>

theorem euler_method_length:
  assumes "euler_method fp k x0 y0 x_final h = Inr (xs, ye, ya)"
    and "float_lt (Fin 0) h" "float_lt x0 x_final" "ieee_rounding fp"
  shows "\<exists>q. float_div fp (float_sub fp x_final x0) h = Fin q \<and> 0 \<le> q \<and>
           py_int (Fin q) = Inr \<lfloor>q\<rfloor> \<and>
           length xs = nat \<lfloor>q\<rfloor> + 1 \<and>
           length ye = nat \<lfloor>q\<rfloor> + 1 \<and>
           length ya = nat \<lfloor>q\<rfloor> + 1"
proof -
  from euler_method_returned [OF assms(1)] obtain v n xc yc where
    v: "py_truediv fp (float_sub fp x_final x0) h = Inr v" and
    n: "py_int v = Inr n" and
    inv: "euler_inv fp k x0 y0 h (xs, ye, ya, xc, yc)" and
    len: "length xs = Suc (py_range_len n)"
    by blast
  from v have div: "float_div fp (float_sub fp x_final x0) h = v"
    by (simp add: py_truediv_def split: if_splits)
  from n obtain q where q: "v = Fin q"
    by (cases v) (simp_all add: py_int_def)
  from float_div_nonneg [OF assms(4) float_sub_nonneg [OF assms(4,3)] assms(2)] div q
  have nonneg: "0 \<le> q" by simp
  with n q have n': "n = \<lfloor>q\<rfloor>" by (simp add: py_int_def)
  from nonneg have "py_range_len \<lfloor>q\<rfloor> = nat \<lfloor>q\<rfloor>" by (simp add: py_range_len_def)
  with len n' have lx: "length xs = nat \<lfloor>q\<rfloor> + 1" by simp
  from inv have "length ye = length xs" "length ya = length xs"
    by (simp_all add: euler_inv_def)
  with lx div q nonneg n n' show ?thesis by auto
qed

text \<open>
  The theorem at \<open>x0 = 0\<close>, \<open>x_final = 5/4\<close>, \<open>h = 1/2\<close>: the quotient is \<open>5/2\<close>,
  there are two steps and three points, and the last grid point \<open>1\<close> falls short of
  \<open>x_final\<close>.
\<close>

theorem euler_method_length_witness:
  "euler_method exact_in_range (Fin 1) (Fin 0) (Fin 1) (Fin (5 / 4)) (Fin (1 / 2)) =
     Inr ([Fin 0, Fin (1 / 2), Fin 1],
          [Fin 1, Fin (3 / 2), Fin (9 / 4)],
          [Fin 1, Fin (exp (1 / 2)), Fin (exp 1)]) \<and>
   float_lt (Fin 0) (Fin (1 / 2)) \<and> float_lt (Fin 0) (Fin (5 / 4)) \<and>
   ieee_rounding exact_in_range \<and>
   float_div exact_in_range (float_sub exact_in_range (Fin (5 / 4)) (Fin 0)) (Fin (1 / 2)) =
     Fin (5 / 2) \<and>
   \<lfloor>5 / 2 :: real\<rfloor> = 2 \<and>
   length [Fin 0, Fin (1 / 2), Fin 1] = nat 2 + 1 \<and>
   last [Fin 0, Fin (1 / 2), Fin 1] = Fin 1 \<and>
   float_lt (Fin 1) (Fin (5 / 4))"
proof -
  have h: "float_lt (Fin 0) (Fin (1 / 2))" and x: "float_lt (Fin 0) (Fin (5 / 4))"
    by simp_all
  have d: "float_div exact_in_range (float_sub exact_in_range (Fin (5 / 4)) (Fin 0))
      (Fin (1 / 2)) = Fin (5 / 2)"
    by (simp add: float_sub_def rnd_exact_small)
  have fl: "\<lfloor>5 / 2 :: real\<rfloor> = 2" by simp
  from euler_method_length [OF run_short_of_end h x ieee_rounding_exact_in_range] d fl
  have "length [Fin 0, Fin (1 / 2), Fin 1] = nat 2 + 1"
    by auto
  with run_short_of_end h x ieee_rounding_exact_in_range d fl show ?thesis by simp
qed

text \<open>
  On a valid input the call need not return: with \<open>k = 1000\<close> on the unit interval the
  exponential overflows and \<^verbatim>\<open>math.exp\<close> raises.
\<close>

lemma exp_1000_overflows: "binary64_max < exp (1000 :: real)"
proof -
  have "(1 + 1 / 2 :: real) ^ 2 \<le> exp 1"
    using exp_ge_one_plus_x_over_n_power_n [of 2 "1 :: real"] by simp
  then have e: "(9 / 4 :: real) \<le> exp 1" by (simp add: power2_eq_square)
  have "(2 :: real) ^ 8 * 4 ^ 7 \<le> 9 ^ 7" by simp
  then have "(2 :: real) ^ 8 \<le> 9 ^ 7 / 4 ^ 7" by (simp add: pos_le_divide_eq)
  also have "\<dots> = (9 / 4) ^ 7" by (simp add: power_divide)
  also from e have "(9 / 4 :: real) ^ 7 \<le> exp 1 ^ 7" by (intro power_mono) simp_all
  also have "exp (1 :: real) ^ 7 = exp 7"
    using exp_of_nat_mult [of 7 "1 :: real"] by simp
  finally have "((2 :: real) ^ 8) ^ 142 \<le> exp 7 ^ 142" by (intro power_mono) simp_all
  also have "exp (7 :: real) ^ 142 = exp 994"
    using exp_of_nat_mult [of 142 "7 :: real"] by simp
  also have "exp (994 :: real) \<le> exp 1000" by simp
  finally have "(2 :: real) ^ 1136 \<le> exp 1000" by (simp add: power_mult [symmetric])
  moreover have "binary64_max < 2 ^ 1136" by (simp add: binary64_max_def)
  ultimately show ?thesis by linarith
qed

lemma libm_exp_exact_1000: "libm_exp exact_in_range 1000 = PInf"
  using exp_1000_overflows by (simp add: exact_in_range_def clip_def)

lemma euler_method_exp_overflow:
  "float_lt (Fin 0) (Fin 1) \<and>
   euler_method exact_in_range (Fin 1000) (Fin 0) (Fin 1) (Fin 1) (Fin 1) = Inl OverflowError"
  by (simp add: euler_method_def py_truediv_def py_int_def py_exp_def py_range_len_def
      bind_err_def float_sub_def rnd_exact_small libm_exp_exact_1000 Let_def)

text \<open>
  The difference of a float and one that is not smaller, and its quotient by a positive
  float: NaN or not positive.
\<close>

lemma float_sub_nonpos:
  assumes "ieee_rounding fp" "float_le x_final x0"
  shows "float_sub fp x_final x0 = NaN \<or> float_le (float_sub fp x_final x0) (Fin 0)"
proof (cases x0; cases x_final)
  fix a b assume "x0 = Fin a" "x_final = Fin b"
  with assms(2) rnd_nonpos [OF assms(1), of "b + - a"] show ?thesis
    by (simp add: float_sub_def)
qed (use assms(2) in \<open>simp_all add: float_sub_def\<close>)

lemma float_div_nonpos:
  assumes "ieee_rounding fp" "d = NaN \<or> float_le d (Fin 0)" "float_lt (Fin 0) h"
  shows "float_div fp d h = NaN \<or> float_le (float_div fp d h) (Fin 0)"
proof (cases d; cases h)
  fix a b assume "d = Fin a" "h = Fin b"
  with assms(2,3) have "a / b \<le> 0" by (simp add: divide_le_0_iff)
  from rnd_nonpos [OF assms(1) this] \<open>d = Fin a\<close> \<open>h = Fin b\<close> show ?thesis
    by simp
qed (use assms(2,3) in \<open>simp_all add: signed_inf_def\<close>)

text \<open>
  Claim C10, as stated: called directly with \<open>h > 0\<close> and \<open>x_final \<le> x0\<close>,
  \<^verbatim>\<open>euler_method\<close> raises no error and returns the single-point trajectory. This fails
  at \<open>x0 = 1\<close>, \<open>x_final = 0\<close> and the smallest positive float \<open>h = 2^-1074\<close>: the
  quotient overflows to minus infinity and \<^verbatim>\<open>int\<close> raises \<^verbatim>\<open>OverflowError\<close>.
\<close>

theorem euler_method_empty_interval_overflow:
  "float_lt (Fin 0) (Fin (1 / 2 ^ 1074)) \<and> float_le (Fin 0) (Fin 1) \<and>
   float_div exact_in_range (float_sub exact_in_range (Fin 0) (Fin 1)) (Fin (1 / 2 ^ 1074)) =
     NInf \<and>
   euler_method exact_in_range (Fin 1) (Fin 1) (Fin 1) (Fin 0) (Fin (1 / 2 ^ 1074)) =
     Inl OverflowError"
  by (simp add: euler_method_def py_truediv_def py_int_def bind_err_def float_sub_def
      exact_in_range_def clip_def binary64_max_def)

text \<open>
  Claim C10, amended. Called directly with \<open>h > 0\<close> and \<open>x_final \<le> x0\<close>,
  \<^verbatim>\<open>euler_method\<close> never runs the loop body. When the float quotient
  \<open>(x_final - x0) / h\<close> is finite, it is not positive, the step count truncates toward
  zero to a non-positive value and the single-point trajectory \<open>([x0], [y0], [y0])\<close> is
  returned with no error. When the quotient is minus infinity, \<^verbatim>\<open>int\<close> raises
  \<^verbatim>\<open>OverflowError\<close>, and when it is NaN, \<^verbatim>\<open>ValueError\<close>; it is never plus infinity.
  Rounding is assumed to be \<open>ieee_rounding\<close>.
\<close>

theorem euler_method_empty_interval:
  assumes "float_lt (Fin 0) h" "float_le x_final x0" "ieee_rounding fp"
  shows "float_div fp (float_sub fp x_final x0) h \<noteq> PInf \<and>
         (\<forall>q. float_div fp (float_sub fp x_final x0) h = Fin q \<longrightarrow>
            q \<le> 0 \<and> (\<exists>n. py_int (Fin q) = Inr n \<and> n \<le> 0)) \<and>
         euler_method fp k x0 y0 x_final h =
           (case float_div fp (float_sub fp x_final x0) h of
              Fin q \<Rightarrow> Inr ([x0], [y0], [y0])
            | PInf \<Rightarrow> Inl OverflowError
            | NInf \<Rightarrow> Inl OverflowError
            | NaN \<Rightarrow> Inl ValueError)"
proof -
  let ?q = "float_div fp (float_sub fp x_final x0) h"
  from float_div_nonpos [OF assms(3) float_sub_nonpos [OF assms(3,2)] assms(1)]
  have sign: "?q = NaN \<or> float_le ?q (Fin 0)" .
  then have no_pinf: "?q \<noteq> PInf" by auto
  have fin: "q \<le> 0 \<and> (\<exists>n. py_int (Fin q) = Inr n \<and> n \<le> 0)" if "?q = Fin q" for q
  proof -
    from sign that have "q \<le> 0" by simp
    then show ?thesis by (auto simp: py_int_def ceiling_le_zero)
  qed
  from assms(1) have "h \<noteq> Fin 0" by auto
  then have div: "py_truediv fp (float_sub fp x_final x0) h = Inr ?q"
    by (simp add: py_truediv_def)
  have run: "euler_method fp k x0 y0 x_final h =
      (case ?q of Fin q \<Rightarrow> Inr ([x0], [y0], [y0]) | PInf \<Rightarrow> Inl OverflowError
       | NInf \<Rightarrow> Inl OverflowError | NaN \<Rightarrow> Inl ValueError)"
  proof (cases ?q)
    case (Fin q)
    from fin [OF Fin] obtain n where "py_int (Fin q) = Inr n" "n \<le> 0" by blast
    with div Fin show ?thesis
      by (simp add: euler_method_def bind_err_def py_range_len_def)
  qed (use div in \<open>simp_all add: euler_method_def bind_err_def py_int_def\<close>)
  from no_pinf fin run show ?thesis by blast
qed

text \<open>
  The theorem at \<open>x0 = 5\<close>, \<open>x_final = 5\<close>, \<open>h = 1/8\<close>, and at \<open>x0 = 2\<close>,
  \<open>x_final = 3/4\<close>, \<open>h = 1/2\<close>, where the quotient \<open>-5/2\<close> truncates to \<open>-2\<close>.
\<close>

theorem euler_method_empty_interval_witness:
  "float_lt (Fin 0) (Fin (1 / 8)) \<and> float_le (Fin 5) (Fin 5) \<and> ieee_rounding exact_in_range \<and>
   float_div exact_in_range (float_sub exact_in_range (Fin 5) (Fin 5)) (Fin (1 / 8)) = Fin 0 \<and>
   euler_method exact_in_range (Fin 1) (Fin 5) (Fin 1) (Fin 5) (Fin (1 / 8)) =
     Inr ([Fin 5], [Fin 1], [Fin 1]) \<and>
   float_lt (Fin 0) (Fin (1 / 2)) \<and> float_le (Fin (3 / 4)) (Fin 2) \<and>
   float_div exact_in_range (float_sub exact_in_range (Fin (3 / 4)) (Fin 2)) (Fin (1 / 2)) =
     Fin (- 5 / 2) \<and>
   py_int (Fin (- 5 / 2)) = Inr (- 2) \<and>
   euler_method exact_in_range (Fin 1) (Fin 2) (Fin 1) (Fin (3 / 4)) (Fin (1 / 2)) =
     Inr ([Fin 2], [Fin 1], [Fin 1])"
proof -
  have h: "float_lt (Fin 0) (Fin (1 / 8))" and x: "float_le (Fin 5) (Fin 5)"
    and h': "float_lt (Fin 0) (Fin (1 / 2))" and x': "float_le (Fin (3 / 4)) (Fin 2)"
    by simp_all
  have q: "float_div exact_in_range (float_sub exact_in_range (Fin 5) (Fin 5)) (Fin (1 / 8)) =
      Fin 0"
    and q': "float_div exact_in_range (float_sub exact_in_range (Fin (3 / 4)) (Fin 2))
      (Fin (1 / 2)) = Fin (- 5 / 2)"
    by (simp_all add: float_sub_def rnd_exact_small)
  have t: "py_int (Fin (- 5 / 2)) = Inr (- 2)"
    by (simp add: py_int_def)
  from euler_method_empty_interval [OF h x ieee_rounding_exact_in_range, of "Fin 1" "Fin 1"] q
  have r: "euler_method exact_in_range (Fin 1) (Fin 5) (Fin 1) (Fin 5) (Fin (1 / 8)) =
      Inr ([Fin 5], [Fin 1], [Fin 1])"
    by simp
  from euler_method_empty_interval [OF h' x' ieee_rounding_exact_in_range, of "Fin 1" "Fin 1"] q'
  have r': "euler_method exact_in_range (Fin 1) (Fin 2) (Fin 1) (Fin (3 / 4)) (Fin (1 / 2)) =
      Inr ([Fin 2], [Fin 1], [Fin 1])"
    by simp
  from h x h' x' q q' t r r' ieee_rounding_exact_in_range show ?thesis by blast
qed

subsection \<open>Growth\<close>

text \<open>
  Adding a non-negative float to a float that is plus infinity or a representable number
  gives such a float again, and not a smaller one.
\<close>

lemma float_add_nonneg:
  assumes "ieee_rounding fp" "x = PInf \<or> (\<exists>a. x = Fin a \<and> rnd fp a = Fin a)"
    and "float_le (Fin 0) d"
  shows "float_le x (float_add fp x d) \<and>
         (float_add fp x d = PInf \<or> (\<exists>b. float_add fp x d = Fin b \<and> rnd fp b = Fin b))"
proof (cases x; cases d)
  fix a b assume x: "x = Fin a" and d: "d = Fin b"
  with assms(2,3) have a: "rnd fp a = Fin a" and "a \<le> a + b" by simp_all
  from rnd_above [OF assms(1) this] have le: "float_le (Fin a) (rnd fp (a + b))" .
  from rnd_representable [OF assms(1), of "a + b"] le x d show ?thesis
    by (cases "rnd fp (a + b)") (simp_all add: representable_def)
qed (use assms(2,3) in \<open>auto\<close>)

text \<open>
  One Euler update \<open>y + c * y\<close> with a non-negative factor \<open>c = h * k\<close>: a positive
  representable \<open>y\<close>, or plus infinity when \<open>c\<close> is not zero, stays so and does not
  decrease.
\<close>

lemma euler_update_grows:
  assumes "ieee_rounding fp" "float_le (Fin 0) c"
    and "(y = PInf \<and> c \<noteq> Fin 0) \<or> (\<exists>a. y = Fin a \<and> 0 < a \<and> rnd fp a = Fin a)"
  shows "float_le y (float_add fp y (float_mul fp c y)) \<and>
         ((float_add fp y (float_mul fp c y) = PInf \<and> c \<noteq> Fin 0) \<or>
          (\<exists>b. float_add fp y (float_mul fp c y) = Fin b \<and> 0 < b \<and> rnd fp b = Fin b))"
proof -
  let ?d = "float_mul fp c y"
  let ?y = "float_add fp y ?d"
  have d: "float_le (Fin 0) ?d"
  proof (cases y; cases c)
    fix a c' assume "y = Fin a" "c = Fin c'"
    with assms(2,3) have "0 \<le> c' * a" by simp
    from rnd_nonneg [OF assms(1) this] \<open>y = Fin a\<close> \<open>c = Fin c'\<close> show ?thesis by simp
  qed (use assms(2,3) in \<open>auto simp: signed_inf_def\<close>)
  from assms(3) have good: "y = PInf \<or> (\<exists>a. y = Fin a \<and> rnd fp a = Fin a)" by blast
  from float_add_nonneg [OF assms(1) good d] have
    le: "float_le y ?y" and
    good': "?y = PInf \<or> (\<exists>b. ?y = Fin b \<and> rnd fp b = Fin b)"
    by blast+
  have "(?y = PInf \<and> c \<noteq> Fin 0) \<or> (\<exists>b. ?y = Fin b \<and> 0 < b \<and> rnd fp b = Fin b)"
  proof (cases "c = Fin 0")
    case True
    with assms(3) obtain a where a: "y = Fin a" "0 < a" "rnd fp a = Fin a" by blast
    with True have "?y = Fin a" by (simp add: rnd_zero [OF assms(1)])
    with a show ?thesis by simp
  next
    case False
    from good' show ?thesis
    proof
      assume "?y = PInf"
      with False show ?thesis by simp
    next
      assume "\<exists>b. ?y = Fin b \<and> rnd fp b = Fin b"
      then obtain b where b: "?y = Fin b" "rnd fp b = Fin b" by blast
      from le b(1) assms(3) have "0 < b" by auto
      with b show ?thesis by simp
    qed
  qed
  with le show ?thesis by blast
qed

text \<open>The closed form does not decrease along the grid to the right of \<open>x0\<close>.\<close>

lemma closed_form_mono:
  assumes "ieee_rounding fp" "0 < kr" "0 < yr"
    and "float_le (Fin xr) x" "float_le x x'"
    and "closed_form fp (Fin kr) (Fin xr) (Fin yr) x = Inr a"
    and "closed_form fp (Fin kr) (Fin xr) (Fin yr) x' = Inr a'"
    and "monotone_exp fp"
  shows "float_le a a'"
proof -
  let ?u = "float_mul fp (Fin kr) (float_sub fp x (Fin xr))"
  let ?u' = "float_mul fp (Fin kr) (float_sub fp x' (Fin xr))"
  have z: "float_sub fp (Fin xr) (Fin xr) = Fin 0" "float_mul fp (Fin kr) (Fin 0) = Fin 0"
    by (simp_all add: float_sub_def rnd_zero [OF assms(1)])
  from float_mul_mono [OF assms(1,2) float_sub_mono [OF assms(1,4), of xr]] z
  have nonneg: "float_le (Fin 0) ?u" by simp
  from float_mul_mono [OF assms(1,2) float_sub_mono [OF assms(1,5), of xr]]
  have le: "float_le ?u ?u'" .
  from assms(6) obtain e where e: "py_exp fp ?u = Inr e" and a: "a = float_mul fp (Fin yr) e"
    by (auto simp: closed_form_def bind_err_def split: sum.splits)
  from assms(7) obtain e' where e': "py_exp fp ?u' = Inr e'" and a': "a' = float_mul fp (Fin yr) e'"
    by (auto simp: closed_form_def bind_err_def split: sum.splits)
  from py_exp_mono [OF assms(8) nonneg le e e'] have "float_le e e'" .
  from float_mul_mono [OF assms(1,3) this] a a' show ?thesis by simp
qed

text \<open>The grid of a loop state: every point is right of \<open>x0\<close> and the grid does not decrease.\<close>

lemma euler_inv_grid:
  assumes "euler_inv fp k (Fin xr) y0 (Fin hr) (xs, ye, ya, xc, yc)"
    and "ieee_rounding fp" "0 < hr" "rnd fp xr = Fin xr"
  shows "i < length xs \<Longrightarrow>
           float_le (Fin xr) (xs ! i) \<and>
           (xs ! i = PInf \<or> (\<exists>a. xs ! i = Fin a \<and> rnd fp a = Fin a)) \<and>
           (Suc i < length xs \<longrightarrow> float_le (xs ! i) (xs ! Suc i))"
proof (induction i)
  case 0
  note inv = assms(1) [unfolded euler_inv_def prod.case]
  from inv have x0: "xs ! 0 = Fin xr" by blast
  with assms(4) have good: "xs ! 0 = PInf \<or> (\<exists>a. xs ! 0 = Fin a \<and> rnd fp a = Fin a)"
    by simp
  from assms(3) have h: "float_le (Fin 0) (Fin hr)" by simp
  from float_add_nonneg [OF assms(2) good h] inv
  have "Suc 0 < length xs \<longrightarrow> float_le (xs ! 0) (xs ! Suc 0)" by auto
  with x0 good show ?case by simp
next
  case (Suc i)
  note inv = assms(1) [unfolded euler_inv_def prod.case]
  from Suc have prev: "float_le (Fin xr) (xs ! i)"
    "xs ! i = PInf \<or> (\<exists>a. xs ! i = Fin a \<and> rnd fp a = Fin a)"
    by simp_all
  from inv Suc.prems have step: "xs ! Suc i = float_add fp (xs ! i) (Fin hr)" by blast
  from assms(3) have h: "float_le (Fin 0) (Fin hr)" by simp
  from float_add_nonneg [OF assms(2) prev(2) h] step have
    le: "float_le (xs ! i) (xs ! Suc i)" and
    good: "xs ! Suc i = PInf \<or> (\<exists>a. xs ! Suc i = Fin a \<and> rnd fp a = Fin a)"
    by simp_all
  from float_le_trans [OF prev(1) le] have right: "float_le (Fin xr) (xs ! Suc i)" .
  from inv have "Suc (Suc i) < length xs \<longrightarrow>
      xs ! Suc (Suc i) = float_add fp (xs ! Suc i) (Fin hr)"
    by blast
  with float_add_nonneg [OF assms(2) good h]
  have "Suc (Suc i) < length xs \<longrightarrow> float_le (xs ! Suc i) (xs ! Suc (Suc i))" by auto
  with right good show ?case by simp
qed

text \<open>The Euler values of a loop state, for positive \<open>h\<close>, \<open>k\<close> and \<open>y0\<close>.\<close>

lemma euler_inv_growth:
  assumes "euler_inv fp (Fin kr) x0 (Fin yr) (Fin hr) (xs, ye, ya, xc, yc)"
    and "ieee_rounding fp" "0 < kr" "0 < yr" "0 < hr" "rnd fp yr = Fin yr"
  shows "i < length xs \<Longrightarrow>
           ((ye ! i = PInf \<and> float_mul fp (Fin hr) (Fin kr) \<noteq> Fin 0) \<or>
            (\<exists>a. ye ! i = Fin a \<and> 0 < a \<and> rnd fp a = Fin a)) \<and>
           (Suc i < length xs \<longrightarrow> float_le (ye ! i) (ye ! Suc i))"
proof (induction i)
  case 0
  note inv = assms(1) [unfolded euler_inv_def prod.case]
  let ?c = "float_mul fp (Fin hr) (Fin kr)"
  from assms(3,5) have "0 \<le> hr * kr" by simp
  from rnd_nonneg [OF assms(2) this] have c: "float_le (Fin 0) ?c" by simp
  from inv have "ye ! 0 = Fin yr" by blast
  with assms(4,6) have pos: "(ye ! 0 = PInf \<and> ?c \<noteq> Fin 0) \<or>
      (\<exists>a. ye ! 0 = Fin a \<and> 0 < a \<and> rnd fp a = Fin a)"
    by simp
  from inv have "Suc 0 < length xs \<longrightarrow>
      ye ! Suc 0 = float_add fp (ye ! 0) (float_mul fp ?c (ye ! 0))"
    by blast
  with euler_update_grows [OF assms(2) c pos]
  have "Suc 0 < length xs \<longrightarrow> float_le (ye ! 0) (ye ! Suc 0)" by auto
  with pos show ?case by blast
next
  case (Suc i)
  note inv = assms(1) [unfolded euler_inv_def prod.case]
  let ?c = "float_mul fp (Fin hr) (Fin kr)"
  from assms(3,5) have "0 \<le> hr * kr" by simp
  from rnd_nonneg [OF assms(2) this] have c: "float_le (Fin 0) ?c" by simp
  from Suc have prev: "(ye ! i = PInf \<and> ?c \<noteq> Fin 0) \<or>
      (\<exists>a. ye ! i = Fin a \<and> 0 < a \<and> rnd fp a = Fin a)"
    by simp
  from inv Suc.prems have step: "ye ! Suc i = float_add fp (ye ! i) (float_mul fp ?c (ye ! i))"
    by blast
  from euler_update_grows [OF assms(2) c prev] step
  have pos: "(ye ! Suc i = PInf \<and> ?c \<noteq> Fin 0) \<or>
      (\<exists>a. ye ! Suc i = Fin a \<and> 0 < a \<and> rnd fp a = Fin a)"
    by simp
  from inv have "Suc (Suc i) < length xs \<longrightarrow>
      ye ! Suc (Suc i) = float_add fp (ye ! Suc i) (float_mul fp ?c (ye ! Suc i))"
    by blast
  with euler_update_grows [OF assms(2) c pos]
  have "Suc (Suc i) < length xs \<longrightarrow> float_le (ye ! Suc i) (ye ! Suc (Suc i))" by auto
  with pos show ?case by blast
qed

text \<open>
  Claim C8. For every valid input with \<open>k > 0\<close> and \<open>y0 > 0\<close>, both sequences of the
  returned trajectory are non-decreasing: \<open>yEuler[i+1] \<ge> yEuler[i]\<close> and
  \<open>yAnalytical[i+1] \<ge> yAnalytical[i]\<close> for every \<open>i\<close> from \<open>0\<close> to \<open>n - 1\<close>. The inputs
  are finite floats, rounding is \<open>ieee_rounding\<close> and the library's \<open>exp\<close> is
  \<open>monotone_exp\<close>. The comparison is that of floats, so no entry is a NaN; an entry
  may have overflowed to infinity.
\<close>

theorem euler_method_monotone:
  assumes "euler_method fp (Fin kr) (Fin xr) (Fin yr) x_final (Fin hr) = Inr (xs, ye, ya)"
    and "ieee_rounding fp" "0 < kr" "0 < yr" "0 < hr" "rnd fp yr = Fin yr" "rnd fp xr = Fin xr"
    and "monotone_exp fp"
  shows "length ye = length xs \<and> length ya = length xs \<and>
         (\<forall>i. Suc i < length xs \<longrightarrow>
            float_le (ye ! i) (ye ! (i + 1)) \<and> float_le (ya ! i) (ya ! (i + 1))) \<and>
         sorted_wrt float_le ye \<and> sorted_wrt float_le ya"
proof -
  from euler_method_returned [OF assms(1)] obtain xc yc where
    inv: "euler_inv fp (Fin kr) (Fin xr) (Fin yr) (Fin hr) (xs, ye, ya, xc, yc)"
    by blast
  from inv have le: "length ye = length xs" and la: "length ya = length xs"
    by (simp_all add: euler_inv_def)
  from assms(6) have y0: "representable fp (Fin yr)"
    by (simp add: representable_def)
  have step: "float_le (ye ! i) (ye ! Suc i) \<and> float_le (ya ! i) (ya ! Suc i)"
    if "Suc i < length xs" for i
  proof -
    from that have i: "i < length xs" by simp
    from euler_inv_growth [OF inv assms(2-6) i] that
    have e: "float_le (ye ! i) (ye ! Suc i)" by blast
    from euler_inv_grid [OF inv assms(2,5,7) i] that
    have right: "float_le (Fin xr) (xs ! i)" and grid: "float_le (xs ! i) (xs ! Suc i)"
      by blast+
    from euler_inv_closed_form [OF inv rnd_zero [OF assms(2)] libm_exp_zero [OF assms(8)] y0]
    have cf: "closed_form fp (Fin kr) (Fin xr) (Fin yr) (xs ! i) = Inr (ya ! i)"
      and cf': "closed_form fp (Fin kr) (Fin xr) (Fin yr) (xs ! Suc i) = Inr (ya ! Suc i)"
      using i that by blast+
    from closed_form_mono [OF assms(2-4) right grid cf cf' assms(8)] e show ?thesis by blast
  qed
  from step le have "sorted_wrt float_le ye"
    by (simp add: sorted_wrt_iff_nth_Suc_transp [OF transp_float_le])
  moreover from step la have "sorted_wrt float_le ya"
    by (simp add: sorted_wrt_iff_nth_Suc_transp [OF transp_float_le])
  ultimately show ?thesis using step le la by simp
qed

text \<open>
  The theorem at \<open>k = 1\<close>, \<open>x0 = 0\<close>, \<open>y0 = 1\<close>, \<open>x_final = 1\<close>, \<open>h = 1/2\<close>, read at the
  last step \<open>i = 1\<close>.
\<close>

theorem euler_method_monotone_witness:
  "euler_method exact_in_range (Fin 1) (Fin 0) (Fin 1) (Fin 1) (Fin (1 / 2)) =
     Inr ([Fin 0, Fin (1 / 2), Fin 1],
          [Fin 1, Fin (3 / 2), Fin (9 / 4)],
          [Fin 1, Fin (exp (1 / 2)), Fin (exp 1)]) \<and>
   ieee_rounding exact_in_range \<and> monotone_exp exact_in_range \<and> (0 :: real) < 1 \<and> (0 :: real) < 1 / 2 \<and>
   rnd exact_in_range 1 = Fin 1 \<and> rnd exact_in_range 0 = Fin 0 \<and>
   Suc 1 < length [Fin 0, Fin (1 / 2), Fin 1] \<and>
   float_le ([Fin 1, Fin (3 / 2), Fin (9 / 4)] ! 1) ([Fin 1, Fin (3 / 2), Fin (9 / 4)] ! (1 + 1)) \<and>
   float_le ([Fin 1, Fin (exp (1 / 2)), Fin (exp 1)] ! 1)
     ([Fin 1, Fin (exp (1 / 2)), Fin (exp 1)] ! (1 + 1)) \<and>
   sorted_wrt float_le [Fin 1, Fin (3 / 2), Fin (9 / 4)] \<and>
   sorted_wrt float_le [Fin 1, Fin (exp (1 / 2)), Fin (exp 1)]"
proof -
  have k: "(0 :: real) < 1" and h: "(0 :: real) < 1 / 2" by simp_all
  have y: "rnd exact_in_range 1 = Fin 1" and x: "rnd exact_in_range 0 = Fin 0"
    by (simp_all add: rnd_exact_small)
  have i: "Suc 1 < length [Fin 0, Fin (1 / 2), Fin 1]" by simp
  from euler_method_monotone [OF run_two_steps ieee_rounding_exact_in_range k k h y x
      monotone_exp_exact_in_range]
  have all: "\<And>i. Suc i < length [Fin 0, Fin (1 / 2), Fin 1] \<Longrightarrow>
      float_le ([Fin 1, Fin (3 / 2), Fin (9 / 4)] ! i) ([Fin 1, Fin (3 / 2), Fin (9 / 4)] ! (i + 1)) \<and>
      float_le ([Fin 1, Fin (exp (1 / 2)), Fin (exp 1)] ! i)
        ([Fin 1, Fin (exp (1 / 2)), Fin (exp 1)] ! (i + 1))"
    and s: "sorted_wrt float_le [Fin 1, Fin (3 / 2), Fin (9 / 4)]"
      "sorted_wrt float_le [Fin 1, Fin (exp (1 / 2)), Fin (exp 1)]"
    by blast+
  from all [OF i] s run_two_steps ieee_rounding_exact_in_range monotone_exp_exact_in_range
    k h y x i show ?thesis by blast
qed

section \<open>Properties of the table formatter\<close>

lemma step_record_row_at:
  assumes "i < length x_values" "length x_values \<le> length y_euler"
    "length x_values \<le> length y_analytical"
  shows "step_record fp x_values y_euler y_analytical k h i =
           Inr (row_at fp x_values y_euler y_analytical k h i)"
proof (cases "i = 0")
  case True
  with assms have "y_euler \<noteq> []" "y_analytical \<noteq> []"
    by auto
  with assms(1) True show ?thesis
    by (simp add: step_record_def row_at_def py_getitem_def bind_err_def)
next
  case False
  with assms have "i - 1 < length y_euler" "i < length y_euler" "i < length y_analytical"
    by simp_all
  with assms(1) False show ?thesis
    by (simp add: step_record_def row_at_def py_getitem_def bind_err_def Let_def)
qed

lemma step_table_loop_rows:
  assumes "\<forall>i \<in> set idx. i < length x_values" "length x_values \<le> length y_euler"
    "length x_values \<le> length y_analytical"
  shows "step_table_loop idx fp x_values y_euler y_analytical k h steps_data =
           Inr (steps_data @ map (row_at fp x_values y_euler y_analytical k h) idx)"
  using assms(1)
proof (induction idx arbitrary: steps_data)
  case Nil
  then show ?case by simp
next
  case (Cons i rest)
  then have "i < length x_values" by simp
  from step_record_row_at [OF this assms(2,3)] Cons show ?case
    by (simp add: bind_err_def)
qed

lemma create_step_table_rows:
  assumes "length x_values \<le> length y_euler" "length x_values \<le> length y_analytical"
  shows "create_step_table fp x_values y_euler y_analytical k h =
           Inr (map (row_at fp x_values y_euler y_analytical k h) [0..<length x_values])"
  unfolding create_step_table_def
  using step_table_loop_rows [OF _ assms, of "[0..<length x_values]" fp k h "[]"]
  by simp

text \<open>
  Claim C5. For every trajectory, the step table of \<^verbatim>\<open>create_step_table\<close> has exactly
  one record per trajectory index, in index order; the \<open>Next y\<close> field of row 0 is the
  sentinel \<open>Initial value\<close>; and for every index \<open>i > 0\<close> the derivative field of row \<open>i\<close> is
  \<open>k * yEuler[i-1]\<close>, the derivative at the previous Euler value.
\<close>

theorem create_step_table_rows_by_index:
  assumes "length x_values \<le> length y_euler" "length x_values \<le> length y_analytical"
  shows "\<exists>rows. create_step_table fp x_values y_euler y_analytical k h = Inr rows \<and>
           length rows = length x_values \<and>
           (\<forall>i < length x_values.
              col_Step (rows ! i) = i \<and>
              (i = 0 \<longrightarrow> col_Next_y (rows ! i) = [Lit ''Initial value''] \<and>
                         col_dy_dx (rows ! i) = [Fixed 6 (float_mul fp k (y_euler ! 0))]) \<and>
              (0 < i \<longrightarrow>
                 col_dy_dx (rows ! i) = [Fixed 6 (float_mul fp k (y_euler ! (i - 1)))]))"
  using create_step_table_rows [OF assms, of fp k h]
  by (simp add: row_at_def)

text \<open>
  The theorem on the trajectory of \<open>k = 1\<close>, \<open>x0 = 0\<close>, \<open>y0 = 1\<close>, \<open>x_final = 1\<close>,
  \<open>h = 1/2\<close>: three rows; row 1 carries the derivative \<open>1 * 1\<close> of row 0's Euler value,
  not \<open>1 * 3/2\<close>.
\<close>

theorem create_step_table_rows_by_index_witness:
  "length [Fin 0, Fin (1 / 2), Fin 1] \<le> length [Fin 1, Fin (3 / 2), Fin (9 / 4)] \<and>
   length [Fin 0, Fin (1 / 2), Fin 1] \<le> length [Fin 1, Fin (exp (1 / 2)), Fin (exp 1)] \<and>
   (\<exists>rows. create_step_table exact_in_range [Fin 0, Fin (1 / 2), Fin 1]
              [Fin 1, Fin (3 / 2), Fin (9 / 4)] [Fin 1, Fin (exp (1 / 2)), Fin (exp 1)]
              (Fin 1) (Fin (1 / 2)) = Inr rows \<and>
      length rows = 3 \<and>
      col_Step (rows ! 0) = 0 \<and> col_Step (rows ! 1) = 1 \<and> col_Step (rows ! 2) = 2 \<and>
      col_Next_y (rows ! 0) = [Lit ''Initial value''] \<and>
      col_dy_dx (rows ! 0) = [Fixed 6 (Fin 1)] \<and>
      col_dy_dx (rows ! 1) = [Fixed 6 (Fin 1)] \<and>
      col_dy_dx (rows ! 1) \<noteq> [Fixed 6 (float_mul exact_in_range (Fin 1) (Fin (3 / 2)))] \<and>
      col_dy_dx (rows ! 2) = [Fixed 6 (Fin (3 / 2))])"
proof -
  let ?xs = "[Fin 0, Fin (1 / 2), Fin 1]"
  let ?ye = "[Fin 1, Fin (3 / 2), Fin (9 / 4)]"
  let ?ya = "[Fin 1, Fin (exp (1 / 2)), Fin (exp 1)]"
  have a: "length ?xs \<le> length ?ye" and b: "length ?xs \<le> length ?ya"
    by simp_all
  from create_step_table_rows_by_index [OF a b, of exact_in_range "Fin 1" "Fin (1 / 2)"]
  obtain rows where
    run: "create_step_table exact_in_range ?xs ?ye ?ya (Fin 1) (Fin (1 / 2)) = Inr rows" and
    len: "length rows = length ?xs" and
    all: "\<And>i. i < length ?xs \<Longrightarrow>
            col_Step (rows ! i) = i \<and>
            (i = 0 \<longrightarrow> col_Next_y (rows ! i) = [Lit ''Initial value''] \<and>
               col_dy_dx (rows ! i) = [Fixed 6 (float_mul exact_in_range (Fin 1) (?ye ! 0))]) \<and>
            (0 < i \<longrightarrow>
               col_dy_dx (rows ! i) =
                 [Fixed 6 (float_mul exact_in_range (Fin 1) (?ye ! (i - 1)))])"
    by blast
  from all [of 0] have r0: "col_Step (rows ! 0) = 0 \<and>
      col_Next_y (rows ! 0) = [Lit ''Initial value''] \<and>
      col_dy_dx (rows ! 0) = [Fixed 6 (Fin 1)]"
    by (simp add: rnd_exact_small)
  from all [of 1] have r1: "col_Step (rows ! 1) = 1 \<and> col_dy_dx (rows ! 1) = [Fixed 6 (Fin 1)]"
    by (simp add: rnd_exact_small)
  from all [of 2] have r2: "col_Step (rows ! 2) = 2 \<and>
      col_dy_dx (rows ! 2) = [Fixed 6 (Fin (3 / 2))]"
    by (simp add: rnd_exact_small)
  from r1 have r1': "col_dy_dx (rows ! 1) \<noteq>
      [Fixed 6 (float_mul exact_in_range (Fin 1) (Fin (3 / 2)))]"
    by (simp add: rnd_exact_small)
  from len have len': "length rows = 3" by simp
  from a b run len' r0 r1 r1' r2 show ?thesis by blast
qed

text \<open>
  Claim C9, as stated: in every step-table record each numeric field is rendered at a
  fixed decimal precision, including every numeric quantity of the \<open>Next y\<close>
  update-formula text. This fails on the table of the trajectory of \<open>k = 1\<close>, \<open>x0 = 0\<close>,
  \<open>y0 = 1\<close>, \<open>x_final = 1/2\<close>, \<open>h = 1/2\<close>: the \<open>Next y\<close> text of row 1 holds the step
  size \<open>h\<close> with no format specification.
\<close>

theorem create_step_table_step_size_unformatted:
  "euler_method exact_in_range (Fin 1) (Fin 0) (Fin 1) (Fin (1 / 2)) (Fin (1 / 2)) =
     Inr ([Fin 0, Fin (1 / 2)], [Fin 1, Fin (3 / 2)], [Fin 1, Fin (exp (1 / 2))]) \<and>
   create_step_table exact_in_range [Fin 0, Fin (1 / 2)] [Fin 1, Fin (3 / 2)]
       [Fin 1, Fin (exp (1 / 2))] (Fin 1) (Fin (1 / 2)) =
     Inr [\<lparr>col_Step = 0,
           col_x = [Fixed 4 (Fin 0)],
           col_y_Euler = [Fixed 6 (Fin 1)],
           col_y_Analytical = [Fixed 6 (Fin 1)],
           col_dy_dx = [Fixed 6 (Fin 1)],
           col_Error = [Fixed 6 (Fin 0)],
           col_Next_y = [Lit ''Initial value'']\<rparr>,
          \<lparr>col_Step = 1,
           col_x = [Fixed 4 (Fin (1 / 2))],
           col_y_Euler = [Fixed 6 (Fin (3 / 2))],
           col_y_Analytical = [Fixed 6 (Fin (exp (1 / 2)))],
           col_dy_dx = [Fixed 6 (Fin 1)],
           col_Error = [Fixed 6 (float_abs (float_sub exact_in_range
                                   (Fin (3 / 2)) (Fin (exp (1 / 2)))))],
           col_Next_y = [Fixed 6 (Fin 1), Lit '' + '', Plain (Fin (1 / 2)),
                         Lit ('' '' @ times_sign @ '' ''), Fixed 6 (Fin 1)]\<rparr>] \<and>
   \<not> list_all fixed_precision
       [Fixed 6 (Fin 1), Lit '' + '', Plain (Fin (1 / 2)),
        Lit ('' '' @ times_sign @ '' ''), Fixed 6 (Fin 1)]"
  by (simp add: run_one_step create_step_table_def step_record_def py_getitem_def
      bind_err_def upt_rec Let_def rnd_exact_small float_sub_def)

text \<open>
  Claim C9, amended. In every step-table record, \<open>x\<close> is rendered with 4 decimal places
  and the Euler value, the analytical value, the derivative and the error with 6 decimal
  places, identically for every row. In the \<open>Next y\<close> text of a row \<open>i > 0\<close> the previous
  Euler value and the derivative are rendered with 6 decimal places, while the step size
  \<open>h\<close> is rendered by Python's default conversion of a float to a string, with no fixed
  precision. The \<open>Step\<close> field is the integer index itself.
\<close>

theorem create_step_table_formats:
  assumes "length x_values \<le> length y_euler" "length x_values \<le> length y_analytical"
  shows "\<exists>rows. create_step_table fp x_values y_euler y_analytical k h = Inr rows \<and>
           length rows = length x_values \<and>
           (\<forall>i < length x_values.
              col_Step (rows ! i) = i \<and>
              col_x (rows ! i) = [Fixed 4 (x_values ! i)] \<and>
              col_y_Euler (rows ! i) = [Fixed 6 (y_euler ! i)] \<and>
              col_y_Analytical (rows ! i) = [Fixed 6 (y_analytical ! i)] \<and>
              col_Error (rows ! i) =
                [Fixed 6 (float_abs (float_sub fp (y_euler ! i) (y_analytical ! i)))] \<and>
              (i = 0 \<longrightarrow>
                 col_dy_dx (rows ! i) = [Fixed 6 (float_mul fp k (y_euler ! 0))] \<and>
                 col_Next_y (rows ! i) = [Lit ''Initial value'']) \<and>
              (0 < i \<longrightarrow>
                 col_dy_dx (rows ! i) = [Fixed 6 (float_mul fp k (y_euler ! (i - 1)))] \<and>
                 col_Next_y (rows ! i) =
                   [Fixed 6 (y_euler ! (i - 1)), Lit '' + '', Plain h,
                    Lit ('' '' @ times_sign @ '' ''),
                    Fixed 6 (float_mul fp k (y_euler ! (i - 1)))]))"
  using create_step_table_rows [OF assms, of fp k h]
  by (simp add: row_at_def)

text \<open>
  The theorem on the trajectory of \<open>k = 1\<close>, \<open>x0 = 0\<close>, \<open>y0 = 1\<close>, \<open>x_final = 1/2\<close>,
  \<open>h = 1/2\<close>, read at row 1.
\<close>

theorem create_step_table_formats_witness:
  "length [Fin 0, Fin (1 / 2)] \<le> length [Fin 1, Fin (3 / 2)] \<and>
   length [Fin 0, Fin (1 / 2)] \<le> length [Fin 1, Fin (exp (1 / 2))] \<and>
   (\<exists>rows. create_step_table exact_in_range [Fin 0, Fin (1 / 2)] [Fin 1, Fin (3 / 2)]
              [Fin 1, Fin (exp (1 / 2))] (Fin 1) (Fin (1 / 2)) = Inr rows \<and>
      length rows = 2 \<and>
      col_Step (rows ! 1) = 1 \<and>
      col_x (rows ! 1) = [Fixed 4 (Fin (1 / 2))] \<and>
      col_y_Euler (rows ! 1) = [Fixed 6 (Fin (3 / 2))] \<and>
      col_y_Analytical (rows ! 1) = [Fixed 6 (Fin (exp (1 / 2)))] \<and>
      col_Error (rows ! 1) =
        [Fixed 6 (float_abs (float_sub exact_in_range (Fin (3 / 2)) (Fin (exp (1 / 2)))))] \<and>
      col_dy_dx (rows ! 1) = [Fixed 6 (Fin 1)] \<and>
      col_Next_y (rows ! 1) =
        [Fixed 6 (Fin 1), Lit '' + '', Plain (Fin (1 / 2)),
         Lit ('' '' @ times_sign @ '' ''), Fixed 6 (Fin 1)])"
proof -
  let ?xs = "[Fin 0, Fin (1 / 2)]"
  let ?ye = "[Fin 1, Fin (3 / 2)]"
  let ?ya = "[Fin 1, Fin (exp (1 / 2))]"
  have a: "length ?xs \<le> length ?ye" and b: "length ?xs \<le> length ?ya"
    by simp_all
  from create_step_table_formats [OF a b, of exact_in_range "Fin 1" "Fin (1 / 2)"]
  obtain rows where
    run: "create_step_table exact_in_range ?xs ?ye ?ya (Fin 1) (Fin (1 / 2)) = Inr rows" and
    len: "length rows = length ?xs" and
    all: "\<And>i. i < length ?xs \<Longrightarrow>
            col_Step (rows ! i) = i \<and>
            col_x (rows ! i) = [Fixed 4 (?xs ! i)] \<and>
            col_y_Euler (rows ! i) = [Fixed 6 (?ye ! i)] \<and>
            col_y_Analytical (rows ! i) = [Fixed 6 (?ya ! i)] \<and>
            col_Error (rows ! i) =
              [Fixed 6 (float_abs (float_sub exact_in_range (?ye ! i) (?ya ! i)))] \<and>
            (i = 0 \<longrightarrow>
               col_dy_dx (rows ! i) = [Fixed 6 (float_mul exact_in_range (Fin 1) (?ye ! 0))] \<and>
               col_Next_y (rows ! i) = [Lit ''Initial value'']) \<and>
            (0 < i \<longrightarrow>
               col_dy_dx (rows ! i) =
                 [Fixed 6 (float_mul exact_in_range (Fin 1) (?ye ! (i - 1)))] \<and>
               col_Next_y (rows ! i) =
                 [Fixed 6 (?ye ! (i - 1)), Lit '' + '', Plain (Fin (1 / 2)),
                  Lit ('' '' @ times_sign @ '' ''),
                  Fixed 6 (float_mul exact_in_range (Fin 1) (?ye ! (i - 1)))])"
    by blast
  from all [of 1] have r1: "col_Step (rows ! 1) = 1 \<and>
      col_x (rows ! 1) = [Fixed 4 (Fin (1 / 2))] \<and>
      col_y_Euler (rows ! 1) = [Fixed 6 (Fin (3 / 2))] \<and>
      col_y_Analytical (rows ! 1) = [Fixed 6 (Fin (exp (1 / 2)))] \<and>
      col_Error (rows ! 1) =
        [Fixed 6 (float_abs (float_sub exact_in_range (Fin (3 / 2)) (Fin (exp (1 / 2)))))] \<and>
      col_dy_dx (rows ! 1) = [Fixed 6 (Fin 1)] \<and>
      col_Next_y (rows ! 1) =
        [Fixed 6 (Fin 1), Lit '' + '', Plain (Fin (1 / 2)),
         Lit ('' '' @ times_sign @ '' ''), Fixed 6 (Fin 1)]"
    by (simp add: rnd_exact_small)
  from len have len': "length rows = 2" by simp
  from a b run len' r1 show ?thesis by blast
qed

section \<open>Properties of the application\<close>

lemma float_abs_zero_iff: "float_abs v = Fin 0 \<longleftrightarrow> v = Fin 0"
  by (cases v) simp_all

lemma float_abs_idem: "float_abs (float_abs v) = float_abs v"
  by (cases v) simp_all

text \<open>
  The trace of \<^verbatim>\<open>main\<close> past its guards: the call of the integrator comes first; when
  the integrator raises, nothing follows; when it returns, the four metrics, the call of
  the table formatter and the table follow, and the modelled part ends without an
  exception.
\<close>

lemma main_integrator_raises:
  assumes "\<not> float_le x_final x0" "\<not> float_le h (Fin 0)"
    and "euler_method fp k x0 y0 x_final h = Inl e"
  shows "main fp k x0 y0 x_final h = ([Call_euler_method k x0 y0 x_final h], Inl e)"
  using assms by (simp add: main_def bind_run_def emit_def attempt_def)

lemma main_integrator_returns:
  assumes "\<not> float_le x_final x0" "\<not> float_le h (Fin 0)"
    and "euler_method fp k x0 y0 x_final h = Inr (xs, ye, ya)"
  shows "main fp k x0 y0 x_final h =
           ([Call_euler_method k x0 y0 x_final h,
             St_metric ''Final Euler Value'' [Fixed 6 (last ye)],
             St_metric ''Final Analytical Value'' [Fixed 6 (last ya)],
             St_metric ''Final Absolute Error''
               [Fixed 6 (float_abs (float_sub fp (last ye) (last ya)))],
             St_metric ''Final Relative Error''
               [Fixed 4 (if last ya \<noteq> Fin 0
                         then float_mul fp
                                (float_div fp (float_abs (float_sub fp (last ye) (last ya)))
                                   (float_abs (last ya)))
                                (Fin 100)
                         else Fin 0),
                Lit ''%''],
             Call_create_step_table] @
            (if length xs > 20
             then [St_dataframe (take 20 (map (row_at fp xs ye ya k h) [0..<length xs])),
                   St_dataframe (map (row_at fp xs ye ya k h) [0..<length xs])]
             else [St_dataframe (map (row_at fp xs ye ya k h) [0..<length xs])]),
            Inr ())"
proof -
  from euler_method_returned [OF assms(3)] obtain xc yc where
    inv: "euler_inv fp k x0 y0 h (xs, ye, ya, xc, yc)"
    by blast
  from inv have ne: "xs \<noteq> []" and le: "length ye = length xs" and la: "length ya = length xs"
    by (simp_all add: euler_inv_def)
  from ne le la have ye: "py_getlast ye = Inr (last ye)" and ya: "py_getlast ya = Inr (last ya)"
    by (auto simp: py_getlast_def split: list.splits)
  from le la have "length xs \<le> length ye" "length xs \<le> length ya" by simp_all
  then have tab: "create_step_table fp xs ye ya k h =
      Inr (map (row_at fp xs ye ya k h) [0..<length xs])"
    by (rule create_step_table_rows)
  from assms ye ya tab show ?thesis
    by (simp add: main_def bind_run_def emit_def attempt_def bind_err_def py_truediv_def
        float_abs_zero_iff Let_def)
qed

text \<open>
  Claim C6. For every input with \<open>x_final \<le> x0\<close> or \<open>h \<le> 0\<close>, the validation in
  \<^verbatim>\<open>main\<close> signals the one error there is, the message of the violated constraint
  shown with \<^verbatim>\<open>st.error\<close> (the constraint on \<open>x_final\<close> first), and the integrator is
  never invoked: the trace of \<^verbatim>\<open>main\<close> is that message alone, with no call of
  \<^verbatim>\<open>euler_method\<close> in it, and \<^verbatim>\<open>main\<close> returns.
\<close>

theorem main_rejects_invalid:
  assumes "float_le x_final x0 \<or> float_le h (Fin 0)"
  shows "main fp k x0 y0 x_final h =
           ([St_error (if float_le x_final x0
                       then ''Final x value must be greater than initial x value''
                       else ''Step size must be positive'')],
            Inr ()) \<and>
         Call_euler_method k x0 y0 x_final h \<notin> set (fst (main fp k x0 y0 x_final h))"
  using assms by (auto simp: main_def emit_def)

text \<open>
  The theorem at \<open>x0 = 5\<close>, \<open>x_final = 5\<close> and at \<open>h = 0\<close>. On an input that passes the
  guards the call is the first event of the trace: at \<open>h = 1/2\<close> on the unit interval,
  and at \<open>k = 1000\<close>, where the integrator raises.
\<close>

theorem main_rejects_invalid_witness:
  "(float_le (Fin 5) (Fin 5) \<or> float_le (Fin (1 / 8)) (Fin 0)) \<and>
   main exact_in_range (Fin 1) (Fin 5) (Fin 1) (Fin 5) (Fin (1 / 8)) =
     ([St_error ''Final x value must be greater than initial x value''], Inr ()) \<and>
   (float_le (Fin 5) (Fin 0) \<or> float_le (Fin 0) (Fin 0)) \<and>
   main exact_in_range (Fin 1) (Fin 0) (Fin 1) (Fin 5) (Fin 0) =
     ([St_error ''Step size must be positive''], Inr ()) \<and>
   hd (fst (main exact_in_range (Fin 1) (Fin 0) (Fin 1) (Fin 1) (Fin (1 / 2)))) =
     Call_euler_method (Fin 1) (Fin 0) (Fin 1) (Fin 1) (Fin (1 / 2)) \<and>
   main exact_in_range (Fin 1000) (Fin 0) (Fin 1) (Fin 1) (Fin 1) =
     ([Call_euler_method (Fin 1000) (Fin 0) (Fin 1) (Fin 1) (Fin 1)], Inl OverflowError)"
proof -
  have a: "float_le (Fin 5) (Fin 5) \<or> float_le (Fin (1 / 8)) (Fin 0)"
    and b: "float_le (Fin 5) (Fin 0) \<or> float_le (Fin 0) (Fin 0)"
    by simp_all
  have c: "hd (fst (main exact_in_range (Fin 1) (Fin 0) (Fin 1) (Fin 1) (Fin (1 / 2)))) =
      Call_euler_method (Fin 1) (Fin 0) (Fin 1) (Fin 1) (Fin (1 / 2))"
    using main_integrator_returns [OF _ _ run_two_steps] by simp
  have d: "main exact_in_range (Fin 1000) (Fin 0) (Fin 1) (Fin 1) (Fin 1) =
      ([Call_euler_method (Fin 1000) (Fin 0) (Fin 1) (Fin 1) (Fin 1)], Inl OverflowError)"
    using main_integrator_raises [of "Fin 1" "Fin 0" "Fin 1" exact_in_range "Fin 1000" "Fin 1"]
      euler_method_exp_overflow by simp
  from main_rejects_invalid [OF a, of exact_in_range "Fin 1" "Fin 1"]
       main_rejects_invalid [OF b, of exact_in_range "Fin 1" "Fin 1"]
  show ?thesis using a b c d by simp
qed

text \<open>
  Claim C7. The final relative error is \<open>|finalError| / |finalAnalytical| * 100\<close> whenever
  the final analytical value is non-zero and exactly \<open>0\<close> when it is exactly \<open>0\<close>, and no
  division-by-zero error is propagated. \<^verbatim>\<open>main\<close>, as far as it is modelled, never
  ends in \<^verbatim>\<open>ZeroDivisionError\<close>, whatever the input; when the integrator returns,
  \<^verbatim>\<open>main\<close> shows this value as the metric \<open>Final Relative Error\<close>, the final values
  being the last entries of the returned lists and the final error, an absolute value,
  being its own absolute value.
\<close>

theorem main_relative_error:
  "snd (main fp k x0 y0 x_final h) \<noteq> Inl ZeroDivisionError \<and>
   (\<not> float_le x_final x0 \<and> \<not> float_le h (Fin 0) \<and>
    euler_method fp k x0 y0 x_final h = Inr (xs, ye, ya) \<longrightarrow>
      float_abs (float_abs (float_sub fp (last ye) (last ya))) =
        float_abs (float_sub fp (last ye) (last ya)) \<and>
      St_metric ''Final Analytical Value'' [Fixed 6 (last ya)]
        \<in> set (fst (main fp k x0 y0 x_final h)) \<and>
      St_metric ''Final Absolute Error''
        [Fixed 6 (float_abs (float_sub fp (last ye) (last ya)))]
        \<in> set (fst (main fp k x0 y0 x_final h)) \<and>
      St_metric ''Final Relative Error''
        [Fixed 4 (if last ya \<noteq> Fin 0
                  then float_mul fp
                         (float_div fp (float_abs (float_sub fp (last ye) (last ya)))
                            (float_abs (last ya)))
                         (Fin 100)
                  else Fin 0),
         Lit ''%'']
        \<in> set (fst (main fp k x0 y0 x_final h)))"
proof
  show "snd (main fp k x0 y0 x_final h) \<noteq> Inl ZeroDivisionError"
  proof (cases "float_le x_final x0 \<or> float_le h (Fin 0)")
    case True
    then show ?thesis by (auto simp: main_def emit_def)
  next
    case False
    then have g: "\<not> float_le x_final x0" "\<not> float_le h (Fin 0)" by simp_all
    then have h: "h \<noteq> Fin 0" by auto
    show ?thesis
    proof (cases "euler_method fp k x0 y0 x_final h")
      case (Inl e)
      from euler_method_error [OF Inl] h have "e \<noteq> ZeroDivisionError" by auto
      with main_integrator_raises [OF g Inl] show ?thesis by simp
    next
      case (Inr t)
      obtain xs' ye' ya' where "t = (xs', ye', ya')" by (cases t) auto
      with Inr main_integrator_returns [OF g, of fp k y0 xs' ye' ya'] show ?thesis by simp
    qed
  qed
next
  show "\<not> float_le x_final x0 \<and> \<not> float_le h (Fin 0) \<and>
    euler_method fp k x0 y0 x_final h = Inr (xs, ye, ya) \<longrightarrow>
      float_abs (float_abs (float_sub fp (last ye) (last ya))) =
        float_abs (float_sub fp (last ye) (last ya)) \<and>
      St_metric ''Final Analytical Value'' [Fixed 6 (last ya)]
        \<in> set (fst (main fp k x0 y0 x_final h)) \<and>
      St_metric ''Final Absolute Error''
        [Fixed 6 (float_abs (float_sub fp (last ye) (last ya)))]
        \<in> set (fst (main fp k x0 y0 x_final h)) \<and>
      St_metric ''Final Relative Error''
        [Fixed 4 (if last ya \<noteq> Fin 0
                  then float_mul fp
                         (float_div fp (float_abs (float_sub fp (last ye) (last ya)))
                            (float_abs (last ya)))
                         (Fin 100)
                  else Fin 0),
         Lit ''%'']
        \<in> set (fst (main fp k x0 y0 x_final h))"
  proof
    assume a: "\<not> float_le x_final x0 \<and> \<not> float_le h (Fin 0) \<and>
      euler_method fp k x0 y0 x_final h = Inr (xs, ye, ya)"
    then have g: "\<not> float_le x_final x0" "\<not> float_le h (Fin 0)"
      and run: "euler_method fp k x0 y0 x_final h = Inr (xs, ye, ya)"
      by simp_all
    show "float_abs (float_abs (float_sub fp (last ye) (last ya))) =
        float_abs (float_sub fp (last ye) (last ya)) \<and>
      St_metric ''Final Analytical Value'' [Fixed 6 (last ya)]
        \<in> set (fst (main fp k x0 y0 x_final h)) \<and>
      St_metric ''Final Absolute Error''
        [Fixed 6 (float_abs (float_sub fp (last ye) (last ya)))]
        \<in> set (fst (main fp k x0 y0 x_final h)) \<and>
      St_metric ''Final Relative Error''
        [Fixed 4 (if last ya \<noteq> Fin 0
                  then float_mul fp
                         (float_div fp (float_abs (float_sub fp (last ye) (last ya)))
                            (float_abs (last ya)))
                         (Fin 100)
                  else Fin 0),
         Lit ''%'']
        \<in> set (fst (main fp k x0 y0 x_final h))"
      unfolding main_integrator_returns [OF g run]
      by (simp add: float_abs_idem)
  qed
qed

text \<open>
  The theorem at \<open>k = 1\<close>, \<open>x0 = 0\<close>, \<open>x_final = 1\<close>, \<open>h = 1/2\<close>: with \<open>y0 = 0\<close> the final
  analytical value is \<open>0\<close> and the relative error shown is \<open>0\<close>; with \<open>y0 = 1\<close> the final
  values are \<open>9/4\<close> and \<open>exp 1\<close>.
\<close>

theorem main_relative_error_witness:
  "\<not> float_le (Fin 1) (Fin 0) \<and> \<not> float_le (Fin (1 / 2)) (Fin 0) \<and>
   euler_method exact_in_range (Fin 1) (Fin 0) (Fin 0) (Fin 1) (Fin (1 / 2)) =
     Inr ([Fin 0, Fin (1 / 2), Fin 1], [Fin 0, Fin 0, Fin 0], [Fin 0, Fin 0, Fin 0]) \<and>
   snd (main exact_in_range (Fin 1) (Fin 0) (Fin 0) (Fin 1) (Fin (1 / 2))) \<noteq>
     Inl ZeroDivisionError \<and>
   St_metric ''Final Relative Error'' [Fixed 4 (Fin 0), Lit ''%'']
     \<in> set (fst (main exact_in_range (Fin 1) (Fin 0) (Fin 0) (Fin 1) (Fin (1 / 2)))) \<and>
   euler_method exact_in_range (Fin 1) (Fin 0) (Fin 1) (Fin 1) (Fin (1 / 2)) =
     Inr ([Fin 0, Fin (1 / 2), Fin 1],
          [Fin 1, Fin (3 / 2), Fin (9 / 4)],
          [Fin 1, Fin (exp (1 / 2)), Fin (exp 1)]) \<and>
   St_metric ''Final Relative Error''
     [Fixed 4 (float_mul exact_in_range
                 (float_div exact_in_range
                    (float_abs (float_sub exact_in_range (Fin (9 / 4)) (Fin (exp 1))))
                    (float_abs (Fin (exp 1))))
                 (Fin 100)),
      Lit ''%'']
     \<in> set (fst (main exact_in_range (Fin 1) (Fin 0) (Fin 1) (Fin 1) (Fin (1 / 2))))"
proof -
  have g: "\<not> float_le (Fin 1) (Fin 0)" "\<not> float_le (Fin (1 / 2)) (Fin 0)"
    by simp_all
  from main_relative_error
    [of exact_in_range "Fin 1" "Fin 0" "Fin 0" "Fin 1" "Fin (1 / 2)"
        "[Fin 0, Fin (1 / 2), Fin 1]" "[Fin 0, Fin 0, Fin 0]" "[Fin 0, Fin 0, Fin 0]"]
    g run_zero_start
  have zero: "snd (main exact_in_range (Fin 1) (Fin 0) (Fin 0) (Fin 1) (Fin (1 / 2))) \<noteq>
        Inl ZeroDivisionError \<and>
      St_metric ''Final Relative Error'' [Fixed 4 (Fin 0), Lit ''%'']
        \<in> set (fst (main exact_in_range (Fin 1) (Fin 0) (Fin 0) (Fin 1) (Fin (1 / 2))))"
    by simp
  from main_relative_error
    [of exact_in_range "Fin 1" "Fin 0" "Fin 1" "Fin 1" "Fin (1 / 2)"
        "[Fin 0, Fin (1 / 2), Fin 1]" "[Fin 1, Fin (3 / 2), Fin (9 / 4)]"
        "[Fin 1, Fin (exp (1 / 2)), Fin (exp 1)]"]
    g run_two_steps
  have one: "St_metric ''Final Relative Error''
        [Fixed 4 (float_mul exact_in_range
                    (float_div exact_in_range
                       (float_abs (float_sub exact_in_range (Fin (9 / 4)) (Fin (exp 1))))
                       (float_abs (Fin (exp 1))))
                    (Fin 100)),
         Lit ''%'']
        \<in> set (fst (main exact_in_range (Fin 1) (Fin 0) (Fin 1) (Fin 1) (Fin (1 / 2))))"
    by simp
  from g run_zero_start run_two_steps zero one show ?thesis by blast
qed

end
